theory Spec2Isabelle
  imports Main "HOL-Library.Multiset"
begin

section \<open>Request values and the JavaScript operators the handlers use\<close>

text \<open>
  A field of a JSON request body, of the query string or of the route is absent
  (\<open>undefined\<close>), \<open>null\<close> or a string. Numbers, booleans, arrays and objects in
  a request are outside this model. A character stands for one code unit of a JavaScript
  string, so \<open>length\<close> is the \<open>.length\<close> the schema validators count.
\<close>

datatype jsval = JUndefined | JNull | JStr string

text \<open>\<open>!v\<close> is \<open>\<not> truthy v\<close>: \<open>undefined\<close>, \<open>null\<close> and the empty string are falsy.\<close>

fun truthy :: "jsval \<Rightarrow> bool" where
  "truthy (JStr s) = (s \<noteq> [])"
| "truthy JUndefined = False"
| "truthy JNull = False"

text \<open>The string a string-valued field holds (only read where the value is truthy).\<close>

fun strVal :: "jsval \<Rightarrow> string" where
  "strVal (JStr s) = s"
| "strVal JUndefined = []"
| "strVal JNull = []"

text \<open>\<open>v || d\<close> with a string literal \<open>d\<close> on the right.\<close>

definition orElse :: "jsval \<Rightarrow> string \<Rightarrow> string" where
  "orElse v d = (if truthy v then strVal v else d)"

text \<open>
  \<open>String.prototype.trim\<close>, which the schema option \<open>trim: true\<close> applies: white space
  and line terminators are removed at both ends (tab, LF, VT, FF, CR, space, NBSP among
  the code units below 256).
\<close>

definition isWhite :: "char \<Rightarrow> bool" where
  "isWhite c = (c \<in> set [CHR 0x09, CHR 0x0A, CHR 0x0B, CHR 0x0C, CHR 0x0D, CHR 0x20, CHR 0xA0])"

definition trim :: "string \<Rightarrow> string" where
  "trim s = rev (dropWhile isWhite (rev (dropWhile isWhite s)))"

section \<open>The libraries the server calls, and what a request draws from its environment\<close>

text \<open>
  The server is written against Mongoose, bcryptjs and the JavaScript \<open>Date\<close>
  constructor. What they compute on strings is a parameter of every handler:
  \<^item> \<open>castObjectId\<close>: the ObjectId a string casts to, \<open>None\<close> when the cast fails;
  \<^item> \<open>dateParse\<close>: the time value (milliseconds since the epoch) of \<open>new Date(s)\<close>,
    \<open>None\<close> when the date is invalid (\<open>isNaN(d.getTime())\<close>);
  \<^item> \<open>bcryptHash password salt\<close> and \<open>bcryptCompare password hash\<close>.
  The theorems below hold for every choice of them.
\<close>

type_synonym oid = string

record lib =
  castObjectId :: "string \<Rightarrow> oid option"
  dateParse :: "string \<Rightarrow> int option"
  bcryptHash :: "string \<Rightarrow> string \<Rightarrow> string"
  bcryptCompare :: "string \<Rightarrow> string \<Rightarrow> bool"

text \<open>
  One request reads the clock (the \<open>timestamps\<close> option), may generate the \<open>_id\<close> of
  a new document and may generate a salt (\<open>bcrypt.genSalt(10)\<close>).
\<close>

record env =
  e_now :: int
  e_newId :: oid
  e_salt :: string

text \<open>
  \<open>mongoose.Types.ObjectId.isValid\<close>: a string is a well-formed identifier when it casts
  to an ObjectId; an absent or \<open>null\<close> value is not.
\<close>

fun isValid :: "lib \<Rightarrow> jsval \<Rightarrow> bool" where
  "isValid L (JStr s) = (castObjectId L s \<noteq> None)"
| "isValid L JUndefined = False"
| "isValid L JNull = False"

text \<open>
  \<^verbatim>\<open>
  const parseDate = (str) => {
    if (!str) return null;
    const d = new Date(str);
    return isNaN(d.getTime()) ? null : d;
  };
  \<close>
\<close>

definition parseDate :: "lib \<Rightarrow> jsval \<Rightarrow> int option" where
  "parseDate L str = (if \<not> truthy str then None else dateParse L (strVal str))"

text \<open>\<open>start && end && start > end\<close>: a Date object is truthy, \<open>null\<close> is not.\<close>

fun startAfterEnd :: "int option \<Rightarrow> int option \<Rightarrow> bool" where
  "startAfterEnd (Some a) (Some b) = (a > b)"
| "startAfterEnd None b = False"
| "startAfterEnd (Some a) None = False"

section \<open>Documents and collections\<close>

text \<open>models/Student.js: only \<open>email\<close> and \<open>password\<close> are required; every other path may be absent.\<close>

record student =
  s_id :: oid
  s_email :: string
  s_password :: string
  s_firstName :: "string option"
  s_lastName :: "string option"
  s_phone :: "string option"
  s_address :: "string option"
  s_education :: "string option"
  s_skills :: "string option"
  s_experience :: "string option"
  s_projects :: "string option"
  s_certifications :: "string option"
  s_createdAt :: int
  s_updatedAt :: int

text \<open>models/Organization.js\<close>

record organization =
  o_id :: oid
  o_orgName :: string
  o_email :: string
  o_phone :: "string option"
  o_password :: string
  o_createdAt :: int
  o_updatedAt :: int

text \<open>
  models/Post.js. A date path holds a time value or \<open>null\<close>; \<open>p_v\<close> is the version
  key \<open>__v\<close>, \<open>None\<close> once a projection has removed it.
\<close>

record post =
  p_id :: oid
  p_orgId :: oid
  p_orgName :: string
  p_title :: string
  p_type :: string
  p_description :: string
  p_location :: string
  p_durationStart :: "int option"
  p_durationEnd :: "int option"
  p_deadline :: "int option"
  p_applicationLink :: string
  p_status :: string
  p_createdAt :: int
  p_updatedAt :: int
  p_v :: "nat option"

text \<open>The storage service: three collections, each in insertion order.\<close>

record db =
  students :: "student list"
  organizations :: "organization list"
  posts :: "post list"

definition emptyDb :: db where
  "emptyDb = \<lparr>students = [], organizations = [], posts = []\<rparr>"

section \<open>Schema validation\<close>

text \<open>
  One validator error per failing path, named by its kind and path (\<open>VCustom\<close> carries
  the message the schema gives); the text Mongoose generates for the built-in kinds is
  not modelled.
\<close>

datatype verr =
    VRequired string
  | VMinLength string
  | VMaxLength string
  | VEnum string
  | VCustom string
  | VCast string

text \<open>What a storage call can throw, by \<open>err.name\<close>.\<close>

datatype dberr = ValidationError "verr list" | CastError | MongoServerError

text \<open>The options of a String path that the three schemas use.\<close>

record pathSpec =
  ps_required :: bool
  ps_trim :: bool
  ps_minlength :: "nat option"
  ps_maxlength :: "nat option"
  ps_enum :: "string list option"
  ps_validate :: "((string \<Rightarrow> bool) \<times> string) option"

definition plainPath :: pathSpec where
  "plainPath = \<lparr>ps_required = False, ps_trim = False, ps_minlength = None,
     ps_maxlength = None, ps_enum = None, ps_validate = None\<rparr>"

text \<open>The setter of a path runs when a document is built, on an update and on a query condition.\<close>

definition setPath :: "pathSpec \<Rightarrow> string \<Rightarrow> string" where
  "setPath sp v = (if ps_trim sp then trim v else v)"

text \<open>
  The validators of one path, in the order Mongoose runs them (\<open>required\<close> first); the
  first that fails is the path's error. \<open>required\<close> rejects the empty string.
\<close>

definition validatePath :: "string \<Rightarrow> pathSpec \<Rightarrow> string \<Rightarrow> verr list" where
  "validatePath name sp v =
     (if ps_required sp \<and> v = [] then [VRequired name]
      else if (case ps_minlength sp of Some n \<Rightarrow> length v < n | None \<Rightarrow> False) then [VMinLength name]
      else if (case ps_maxlength sp of Some n \<Rightarrow> n < length v | None \<Rightarrow> False) then [VMaxLength name]
      else if (case ps_enum sp of Some vs \<Rightarrow> v \<notin> set vs | None \<Rightarrow> False) then [VEnum name]
      else (case ps_validate sp of
              Some (ok, msg) \<Rightarrow> if ok v then [] else [VCustom msg]
            | None \<Rightarrow> []))"

subsection \<open>postSchema, in its two revisions\<close>

definition orgNamePath :: pathSpec where
  "orgNamePath = plainPath\<lparr>ps_required := True\<rparr>"

definition titlePath :: pathSpec where
  "titlePath = plainPath\<lparr>ps_required := True, ps_trim := True, ps_maxlength := Some 100\<rparr>"

definition typePath :: pathSpec where
  "typePath = plainPath\<lparr>ps_required := True,
     ps_enum := Some [''Internship'', ''Volunteering'', ''Mentorship'', ''Event'']\<rparr>"

definition descriptionPath :: pathSpec where
  "descriptionPath = plainPath\<lparr>ps_required := True, ps_minlength := Some 20,
     ps_maxlength := Some 2000\<rparr>"

definition locationPath :: pathSpec where
  "locationPath = plainPath"

definition statusPath :: pathSpec where
  "statusPath = plainPath\<lparr>ps_enum := Some [''draft'', ''active'']\<rparr>"

text \<open>\<open>/^(https?:\/\/)/.test(v)\<close>\<close>

definition httpUrl :: "string \<Rightarrow> bool" where
  "httpUrl v = (take 7 v = ''http://'' \<or> take 8 v = ''https://'')"

text \<open>
  The file holds models/Post.js twice. The first revision declares \<open>applicationLink\<close>
  as \<open>{type: String, trim: true, default: ''}\<close>; the second as
  \<open>{type: String, required: true, validate: {validator, message}}\<close>. Everything else
  is the same in both. The server runs with one of them.
\<close>

datatype revision = FirstRevision | SecondRevision

fun applicationLinkPath :: "revision \<Rightarrow> pathSpec" where
  "applicationLinkPath FirstRevision = plainPath\<lparr>ps_trim := True\<rparr>"
| "applicationLinkPath SecondRevision = plainPath\<lparr>ps_required := True,
     ps_validate := Some (httpUrl,
       ''Application link must be a valid URL starting with http:// or https://'')\<rparr>"

text \<open>Validation of a whole Post document, path by path in schema order.\<close>

definition Post_validate :: "revision \<Rightarrow> post \<Rightarrow> verr list" where
  "Post_validate sch p =
     validatePath ''orgName'' orgNamePath (p_orgName p)
     @ validatePath ''title'' titlePath (p_title p)
     @ validatePath ''type'' typePath (p_type p)
     @ validatePath ''description'' descriptionPath (p_description p)
     @ validatePath ''location'' locationPath (p_location p)
     @ validatePath ''applicationLink'' (applicationLinkPath sch) (p_applicationLink p)
     @ validatePath ''status'' statusPath (p_status p)"

text \<open>
  \<open>post.save()\<close> of a new document: validation, then the insert, which the unique
  index on \<open>_id\<close> refuses for an identifier already in the collection.
\<close>

definition Post_save :: "revision \<Rightarrow> db \<Rightarrow> post \<Rightarrow> dberr + db" where
  "Post_save sch d p =
     (let es = Post_validate sch p in
      if es \<noteq> [] then Inl (ValidationError es)
      else if p_id p \<in> set (map p_id (posts d)) then Inl MongoServerError
      else Inr (d\<lparr>posts := posts d @ [p]\<rparr>))"

section \<open>Responses\<close>

record loginInfo =
  li_role :: string
  li_email :: string
  li_id :: oid
  li_orgId :: "oid option"

record cvInfo =
  cv_firstName :: "string option"
  cv_lastName :: "string option"
  cv_email :: string
  cv_phone :: "string option"
  cv_address :: "string option"
  cv_education :: "string option"
  cv_skills :: "string option"
  cv_experience :: "string option"
  cv_projects :: "string option"
  cv_certifications :: "string option"

text \<open>
  The JSON a handler sends: \<open>{error}\<close> with a literal message, \<open>{error}\<close> with the
  joined validator messages, a post, a list of posts, \<open>{message}\<close>,
  \<open>{message, role}\<close>, the login record, \<open>{message, cv}\<close>.
\<close>

datatype body =
    JError string
  | JValidation "verr list"
  | JPost post
  | JPosts "post list"
  | JMessage string
  | JRegistered string string
  | JLogin loginInfo
  | JCv string cvInfo

datatype response = Resp nat body

fun statusOf :: "response \<Rightarrow> nat" where
  "statusOf (Resp c b) = c"

fun bodyOf :: "response \<Rightarrow> body" where
  "bodyOf (Resp c b) = b"

section \<open>Post routes\<close>

subsection \<open>Queries\<close>

text \<open>\<open>.sort({ createdAt: -1 })\<close>\<close>

definition sortNewestFirst :: "post list \<Rightarrow> post list" where
  "sortNewestFirst ps = sort_key (\<lambda>p. - p_createdAt p) ps"

text \<open>\<open>.select('-__v')\<close>\<close>

definition dropVersion :: "post \<Rightarrow> post" where
  "dropVersion p = p\<lparr>p_v := None\<rparr>"

text \<open>\<open>Post.find({ orgId })\<close>: the condition is cast to an ObjectId first.\<close>

definition Post_findByOrg :: "lib \<Rightarrow> db \<Rightarrow> string \<Rightarrow> dberr + post list" where
  "Post_findByOrg L d orgId =
     (case castObjectId L orgId of
        None \<Rightarrow> Inl CastError
      | Some oi \<Rightarrow> Inr (filter (\<lambda>p. p_orgId p = oi) (posts d)))"

text \<open>\<open>Post.findById(id)\<close>\<close>

definition Post_findById :: "lib \<Rightarrow> db \<Rightarrow> string \<Rightarrow> dberr + post option" where
  "Post_findById L d ident =
     (case castObjectId L ident of
        None \<Rightarrow> Inl CastError
      | Some i \<Rightarrow> Inr (find (\<lambda>p. p_id p = i) (posts d)))"

text \<open>GET /api/posts\<close>

definition listPosts :: "lib \<Rightarrow> db \<Rightarrow> jsval \<Rightarrow> response" where
  "listPosts L d orgId =
     (if truthy orgId then
        (if \<not> isValid L orgId then Resp 400 (JError ''Invalid orgId format'')
         else (case Post_findByOrg L d (strVal orgId) of
                 Inl e \<Rightarrow> Resp 500 (JError ''Failed to fetch posts'')
               | Inr ps \<Rightarrow> Resp 200 (JPosts (sortNewestFirst ps))))
      else Resp 200 (JPosts (map dropVersion
             (sortNewestFirst (filter (\<lambda>p. p_status p = ''active'') (posts d))))))"

text \<open>GET /api/posts/:id\<close>

definition getPost :: "lib \<Rightarrow> db \<Rightarrow> string \<Rightarrow> response" where
  "getPost L d ident =
     (if \<not> isValid L (JStr ident) then Resp 400 (JError ''Invalid post ID'')
      else (case Post_findById L d ident of
              Inl e \<Rightarrow> Resp 500 (JError ''Failed to fetch post'')
            | Inr None \<Rightarrow> Resp 404 (JError ''Post not found'')
            | Inr (Some p) \<Rightarrow> Resp 200 (JPost p)))"

subsection \<open>Create\<close>

record createReq =
  c_orgId :: jsval
  c_orgName :: jsval
  c_title :: jsval
  c_type :: jsval
  c_description :: jsval
  c_location :: jsval
  c_durationStart :: jsval
  c_durationEnd :: jsval
  c_deadline :: jsval
  c_applicationLink :: jsval
  c_status :: jsval

definition msgCreateRequired :: string where
  "msgCreateRequired = ''orgId, orgName, title, type, and description are required.''"

definition msgStatus :: string where
  \<open>msgStatus = ''Status must be "draft" or "active".''\<close>

definition msgStartAfterEnd :: string where
  "msgStartAfterEnd = ''Start date cannot be after end date.''"

text \<open>
  POST /api/posts. The destructuring default \<open>status = 'draft'\<close> applies to an absent
  status only. \<open>new Post({...})\<close> casts \<open>orgId\<close> and runs the setters; the new
  document gets its \<open>_id\<close>, both timestamps and \<open>__v = 0\<close>. The \<open>catch\<close> maps a
  ValidationError and a CastError to 400 and anything else to 500.
\<close>

definition createPost :: "revision \<Rightarrow> lib \<Rightarrow> env \<Rightarrow> db \<Rightarrow> createReq \<Rightarrow> db \<times> response" where
  "createPost sch L E d r =
     (let status = (if c_status r = JUndefined then JStr ''draft'' else c_status r) in
      if \<not> truthy (c_orgId r) \<or> \<not> truthy (c_orgName r) \<or> \<not> truthy (c_title r)
         \<or> \<not> truthy (c_type r) \<or> \<not> truthy (c_description r)
      then (d, Resp 400 (JError msgCreateRequired))
      else if status \<noteq> JStr ''draft'' \<and> status \<noteq> JStr ''active''
      then (d, Resp 400 (JError msgStatus))
      else if \<not> isValid L (c_orgId r)
      then (d, Resp 400 (JError ''Invalid orgId format''))
      else
        let start = parseDate L (c_durationStart r);
            endd = parseDate L (c_durationEnd r);
            ddl = parseDate L (c_deadline r)
        in
        if startAfterEnd start endd
        then (d, Resp 400 (JError msgStartAfterEnd))
        else
          (case castObjectId L (strVal (c_orgId r)) of
             None \<Rightarrow> (d, Resp 400 (JValidation [VCast ''orgId'']))
           | Some oi \<Rightarrow>
               let p = \<lparr>p_id = e_newId E,
                        p_orgId = oi,
                        p_orgName = setPath orgNamePath (strVal (c_orgName r)),
                        p_title = setPath titlePath (strVal (c_title r)),
                        p_type = setPath typePath (strVal (c_type r)),
                        p_description = setPath descriptionPath (strVal (c_description r)),
                        p_location = setPath locationPath (orElse (c_location r) ''Remote''),
                        p_durationStart = start,
                        p_durationEnd = endd,
                        p_deadline = ddl,
                        p_applicationLink =
                          setPath (applicationLinkPath sch) (orElse (c_applicationLink r) []),
                        p_status = setPath statusPath (strVal status),
                        p_createdAt = e_now E,
                        p_updatedAt = e_now E,
                        p_v = Some 0\<rparr>
               in
               (case Post_save sch d p of
                  Inl (ValidationError es) \<Rightarrow> (d, Resp 400 (JValidation es))
                | Inl CastError \<Rightarrow>
                    (d, Resp 400 (JError ''Invalid data format. Check orgId and dates.''))
                | Inl MongoServerError \<Rightarrow> (d, Resp 500 (JError ''Failed to create post''))
                | Inr d' \<Rightarrow> (d', Resp 201 (JPost p)))))"

subsection \<open>Update\<close>

record updateReq =
  u_title :: jsval
  u_type :: jsval
  u_description :: jsval
  u_location :: jsval
  u_durationStart :: jsval
  u_durationEnd :: jsval
  u_deadline :: jsval
  u_applicationLink :: jsval

text \<open>The update document the handler passes to \<open>findByIdAndUpdate\<close>.\<close>

record postUpdate =
  pu_title :: string
  pu_type :: string
  pu_description :: string
  pu_location :: string
  pu_durationStart :: "int option"
  pu_durationEnd :: "int option"
  pu_deadline :: "int option"
  pu_applicationLink :: string

text \<open>Replace, or remove, the first element a query condition matches.\<close>

fun replaceFirst :: "('a \<Rightarrow> bool) \<Rightarrow> 'a \<Rightarrow> 'a list \<Rightarrow> 'a list" where
  "replaceFirst P y [] = []"
| "replaceFirst P y (x # xs) = (if P x then y # xs else x # replaceFirst P y xs)"

fun removeFirst :: "('a \<Rightarrow> bool) \<Rightarrow> 'a list \<Rightarrow> 'a list" where
  "removeFirst P [] = []"
| "removeFirst P (x # xs) = (if P x then xs else x # removeFirst P xs)"

text \<open>The update applied to a stored document; the \<open>timestamps\<close> option sets \<open>updatedAt\<close>.\<close>

definition applyUpdate :: "env \<Rightarrow> postUpdate \<Rightarrow> post \<Rightarrow> post" where
  "applyUpdate E u p =
     p\<lparr>p_title := pu_title u,
       p_type := pu_type u,
       p_description := pu_description u,
       p_location := pu_location u,
       p_durationStart := pu_durationStart u,
       p_durationEnd := pu_durationEnd u,
       p_deadline := pu_deadline u,
       p_applicationLink := pu_applicationLink u,
       p_updatedAt := e_now E\<rparr>"

text \<open>
  \<open>Post.findByIdAndUpdate(id, update, { new: true, runValidators: true })\<close>: the
  identifier is cast (a CastError when it is malformed), the update is cast with the
  paths' setters, the update validators run on the paths the update sets, and then the
  first document with that \<open>_id\<close> is replaced and returned (\<open>null\<close> when there is none).
  The validator errors are listed here in the order of the schema; the order in which
  Mongoose lists several of them is not modelled.
\<close>

definition Post_findByIdAndUpdate ::
  "revision \<Rightarrow> lib \<Rightarrow> env \<Rightarrow> db \<Rightarrow> string \<Rightarrow> postUpdate \<Rightarrow> dberr + (db \<times> post option)" where
  "Post_findByIdAndUpdate sch L E d ident u =
     (case castObjectId L ident of
        None \<Rightarrow> Inl CastError
      | Some i \<Rightarrow>
          let u' = u\<lparr>pu_title := setPath titlePath (pu_title u),
                     pu_type := setPath typePath (pu_type u),
                     pu_description := setPath descriptionPath (pu_description u),
                     pu_location := setPath locationPath (pu_location u),
                     pu_applicationLink := setPath (applicationLinkPath sch) (pu_applicationLink u)\<rparr>;
              es = validatePath ''title'' titlePath (pu_title u')
                   @ validatePath ''type'' typePath (pu_type u')
                   @ validatePath ''description'' descriptionPath (pu_description u')
                   @ validatePath ''location'' locationPath (pu_location u')
                   @ validatePath ''applicationLink'' (applicationLinkPath sch) (pu_applicationLink u')
          in
          if es \<noteq> [] then Inl (ValidationError es)
          else (case find (\<lambda>p. p_id p = i) (posts d) of
                  None \<Rightarrow> Inr (d, None)
                | Some p \<Rightarrow>
                    Inr (d\<lparr>posts := replaceFirst (\<lambda>q. p_id q = i) (applyUpdate E u' p) (posts d)\<rparr>,
                         Some (applyUpdate E u' p))))"

text \<open>PUT /api/posts/:id. The \<open>catch\<close> maps a ValidationError to 400 and anything else to 500.\<close>

definition updatePost ::
  "revision \<Rightarrow> lib \<Rightarrow> env \<Rightarrow> db \<Rightarrow> string \<Rightarrow> updateReq \<Rightarrow> db \<times> response" where
  "updatePost sch L E d ident r =
     (if \<not> truthy (u_title r) \<or> \<not> truthy (u_type r) \<or> \<not> truthy (u_description r)
      then (d, Resp 400 (JError ''Title, type, and description are required.''))
      else
        let start = parseDate L (u_durationStart r);
            endd = parseDate L (u_durationEnd r);
            ddl = parseDate L (u_deadline r)
        in
        if startAfterEnd start endd
        then (d, Resp 400 (JError msgStartAfterEnd))
        else
          (case Post_findByIdAndUpdate sch L E d ident
                  \<lparr>pu_title = strVal (u_title r),
                   pu_type = strVal (u_type r),
                   pu_description = strVal (u_description r),
                   pu_location = orElse (u_location r) ''Remote'',
                   pu_durationStart = start,
                   pu_durationEnd = endd,
                   pu_deadline = ddl,
                   pu_applicationLink = orElse (u_applicationLink r) []\<rparr> of
             Inl (ValidationError es) \<Rightarrow> (d, Resp 400 (JValidation es))
           | Inl CastError \<Rightarrow> (d, Resp 500 (JError ''Failed to update post''))
           | Inl MongoServerError \<Rightarrow> (d, Resp 500 (JError ''Failed to update post''))
           | Inr (d', None) \<Rightarrow> (d', Resp 404 (JError ''Post not found''))
           | Inr (d', Some p) \<Rightarrow> (d', Resp 200 (JPost p))))"

subsection \<open>Delete\<close>

text \<open>\<open>Post.findByIdAndDelete(id)\<close>: a CastError when the identifier is malformed.\<close>

definition Post_findByIdAndDelete :: "lib \<Rightarrow> db \<Rightarrow> string \<Rightarrow> dberr + (db \<times> post option)" where
  "Post_findByIdAndDelete L d ident =
     (case castObjectId L ident of
        None \<Rightarrow> Inl CastError
      | Some i \<Rightarrow>
          (case find (\<lambda>p. p_id p = i) (posts d) of
             None \<Rightarrow> Inr (d, None)
           | Some p \<Rightarrow> Inr (d\<lparr>posts := removeFirst (\<lambda>q. p_id q = i) (posts d)\<rparr>, Some p)))"

text \<open>DELETE /api/posts/:id: no check of the identifier before the query.\<close>

definition deletePost :: "lib \<Rightarrow> db \<Rightarrow> string \<Rightarrow> db \<times> response" where
  "deletePost L d ident =
     (case Post_findByIdAndDelete L d ident of
        Inl e \<Rightarrow> (d, Resp 500 (JError ''Failed to delete post''))
      | Inr (d', None) \<Rightarrow> (d', Resp 404 (JError ''Post not found''))
      | Inr (d', Some p) \<Rightarrow> (d', Resp 200 (JMessage ''Post deleted successfully'')))"

section \<open>Accounts\<close>

subsection \<open>studentSchema and organizationSchema\<close>

text \<open>
  models/Student.js: \<open>email\<close> is required, unique and trimmed, \<open>password\<close> is
  required, every other String path is trimmed. models/Organization.js: \<open>orgName\<close>,
  \<open>email\<close> (unique) and \<open>password\<close> are required, nothing is trimmed.
\<close>

definition studentEmailPath :: pathSpec where
  "studentEmailPath = plainPath\<lparr>ps_required := True, ps_trim := True\<rparr>"

definition passwordPath :: pathSpec where
  "passwordPath = plainPath\<lparr>ps_required := True\<rparr>"

definition profilePath :: pathSpec where
  "profilePath = plainPath\<lparr>ps_trim := True\<rparr>"

definition orgEmailPath :: pathSpec where
  "orgEmailPath = plainPath\<lparr>ps_required := True\<rparr>"

definition orgPhonePath :: pathSpec where
  "orgPhonePath = plainPath"

definition Student_validate :: "student \<Rightarrow> verr list" where
  "Student_validate s =
     validatePath ''email'' studentEmailPath (s_email s)
     @ validatePath ''password'' passwordPath (s_password s)"

definition Organization_validate :: "organization \<Rightarrow> verr list" where
  "Organization_validate g =
     validatePath ''orgName'' orgNamePath (o_orgName g)
     @ validatePath ''email'' orgEmailPath (o_email g)
     @ validatePath ''password'' passwordPath (o_password g)"

text \<open>
  \<open>Student.findOne({ email })\<close> and \<open>Organization.findOne({ email })\<close>. Mongoose
  casts a query condition with the setters of its path, so the student query compares
  the stored email with the trimmed argument (its documentation of the \<open>trim\<close> option:
  \<open>M.findOne({ name: string })\<close> is equivalent to
  \<open>findOne({ name: string.trim() })\<close>); the organization query compares it as it is.
  Every stored document has an email, so a condition that is absent or \<open>null\<close> matches
  none.
\<close>

fun Student_findOne :: "db \<Rightarrow> jsval \<Rightarrow> student option" where
  "Student_findOne d (JStr e) = find (\<lambda>s. s_email s = setPath studentEmailPath e) (students d)"
| "Student_findOne d JUndefined = None"
| "Student_findOne d JNull = None"

fun Organization_findOne :: "db \<Rightarrow> jsval \<Rightarrow> organization option" where
  "Organization_findOne d (JStr e) = find (\<lambda>g. o_email g = setPath orgEmailPath e) (organizations d)"
| "Organization_findOne d JUndefined = None"
| "Organization_findOne d JNull = None"

text \<open>\<open>Student.exists\<close>, \<open>Organization.exists\<close>: truthy when a document matches.\<close>

definition Student_exists :: "db \<Rightarrow> jsval \<Rightarrow> bool" where
  "Student_exists d email = (Student_findOne d email \<noteq> None)"

definition Organization_exists :: "db \<Rightarrow> jsval \<Rightarrow> bool" where
  "Organization_exists d email = (Organization_findOne d email \<noteq> None)"

text \<open>
  \<open>save()\<close> of a new account: validation, then the insert, which the unique indexes on
  \<open>_id\<close> and \<open>email\<close> refuse for a value already in the collection.
\<close>

definition Student_insert :: "db \<Rightarrow> student \<Rightarrow> dberr + db" where
  "Student_insert d s =
     (let es = Student_validate s in
      if es \<noteq> [] then Inl (ValidationError es)
      else if s_id s \<in> set (map s_id (students d)) \<or> s_email s \<in> set (map s_email (students d))
      then Inl MongoServerError
      else Inr (d\<lparr>students := students d @ [s]\<rparr>))"

definition Organization_insert :: "db \<Rightarrow> organization \<Rightarrow> dberr + db" where
  "Organization_insert d g =
     (let es = Organization_validate g in
      if es \<noteq> [] then Inl (ValidationError es)
      else if o_id g \<in> set (map o_id (organizations d)) \<or> o_email g \<in> set (map o_email (organizations d))
      then Inl MongoServerError
      else Inr (d\<lparr>organizations := organizations d @ [g]\<rparr>))"

text \<open>
  \<open>save()\<close> of a student \<open>s\<close> that was loaded from the collection as \<open>loaded\<close>
  and then assigned to: validation, then the document with its \<open>_id\<close> is written
  back. When the assignments changed nothing, the document is as it was and
  \<open>updatedAt\<close> is left alone; otherwise the \<open>timestamps\<close> option sets \<open>updatedAt\<close>.
\<close>

definition Student_update ::
  "env \<Rightarrow> db \<Rightarrow> student \<Rightarrow> student \<Rightarrow> dberr + (db \<times> student)" where
  "Student_update E d loaded s =
     (let es = Student_validate s;
          s' = s\<lparr>s_updatedAt := (if s = loaded then s_updatedAt loaded else e_now E)\<rparr>
      in
      if es \<noteq> [] then Inl (ValidationError es)
      else Inr (d\<lparr>students := replaceFirst (\<lambda>x. s_id x = s_id s) s' (students d)\<rparr>, s'))"

subsection \<open>Register\<close>

record registerReq =
  r_role :: jsval
  r_firstName :: jsval
  r_lastName :: jsval
  r_email :: jsval
  r_phone :: jsval
  r_password :: jsval
  r_orgName :: jsval
  r_orgTerms :: jsval

definition msgInvalidRole :: string where
  \<open>msgInvalidRole = ''Invalid role. Must be "student" or "organization".''\<close>

definition msgEmailExists :: string where
  "msgEmailExists = ''An account with this email already exists.''"

definition msgRegistrationFailed :: string where
  "msgRegistrationFailed = ''Server error during registration.''"

text \<open>POST /api/auth/register. The \<open>catch\<close> maps every error to 500.\<close>

definition registerUser :: "lib \<Rightarrow> env \<Rightarrow> db \<Rightarrow> registerReq \<Rightarrow> db \<times> response" where
  "registerUser L E d r =
     (if r_role r \<noteq> JStr ''student'' \<and> r_role r \<noteq> JStr ''organization''
      then (d, Resp 400 (JError msgInvalidRole))
      else
        let emailExistsInStudent = Student_exists d (r_email r);
            emailExistsInOrg = Organization_exists d (r_email r)
        in
        if emailExistsInStudent \<or> emailExistsInOrg
        then (d, Resp 400 (JError msgEmailExists))
        else if r_role r = JStr ''student'' then
          (if \<not> truthy (r_firstName r) \<or> \<not> truthy (r_lastName r) \<or> \<not> truthy (r_email r)
              \<or> \<not> truthy (r_phone r) \<or> \<not> truthy (r_password r)
           then (d, Resp 400 (JError ''All student fields are required.''))
           else
             let hashedPassword = bcryptHash L (strVal (r_password r)) (e_salt E);
                 student = \<lparr>s_id = e_newId E,
                   s_email = setPath studentEmailPath (strVal (r_email r)),
                   s_password = setPath passwordPath hashedPassword,
                   s_firstName = Some (setPath profilePath (strVal (r_firstName r))),
                   s_lastName = Some (setPath profilePath (strVal (r_lastName r))),
                   s_phone = Some (setPath profilePath (strVal (r_phone r))),
                   s_address = None,
                   s_education = None,
                   s_skills = None,
                   s_experience = None,
                   s_projects = None,
                   s_certifications = None,
                   s_createdAt = e_now E,
                   s_updatedAt = e_now E\<rparr>
             in
             (case Student_insert d student of
                Inl e \<Rightarrow> (d, Resp 500 (JError msgRegistrationFailed))
              | Inr d' \<Rightarrow> (d', Resp 201 (JRegistered ''Student registered successfully!'' ''student''))))
        else
          (if \<not> truthy (r_orgName r) \<or> \<not> truthy (r_email r) \<or> \<not> truthy (r_password r)
              \<or> \<not> truthy (r_orgTerms r)
           then (d, Resp 400 (JError ''All organization fields and terms acceptance are required.''))
           else
             let hashedPassword = bcryptHash L (strVal (r_password r)) (e_salt E);
                 org = \<lparr>o_id = e_newId E,
                   o_orgName = setPath orgNamePath (strVal (r_orgName r)),
                   o_email = setPath orgEmailPath (strVal (r_email r)),
                   o_phone = Some (setPath orgPhonePath (orElse (r_phone r) [])),
                   o_password = setPath passwordPath hashedPassword,
                   o_createdAt = e_now E,
                   o_updatedAt = e_now E\<rparr>
             in
             (case Organization_insert d org of
                Inl e \<Rightarrow> (d, Resp 500 (JError msgRegistrationFailed))
              | Inr d' \<Rightarrow>
                  (d', Resp 201 (JRegistered ''Organization registered successfully!'' ''organization'')))))"

subsection \<open>Login\<close>

record loginReq =
  l_email :: jsval
  l_password :: jsval

text \<open>What the login handler reads of the document it found, whichever collection it is from.\<close>

record account =
  a_id :: oid
  a_email :: string
  a_password :: string

definition studentAccount :: "student \<Rightarrow> account" where
  "studentAccount s = \<lparr>a_id = s_id s, a_email = s_email s, a_password = s_password s\<rparr>"

definition orgAccount :: "organization \<Rightarrow> account" where
  "orgAccount g = \<lparr>a_id = o_id g, a_email = o_email g, a_password = o_password g\<rparr>"

text \<open>
  POST /api/auth/login.
  \<^verbatim>\<open>
    let user = await Student.findOne({ email });
    let role = 'student';
    if (!user) {
      user = await Organization.findOne({ email });
      role = 'organization';
    }
  \<close>
\<close>

definition login :: "lib \<Rightarrow> db \<Rightarrow> loginReq \<Rightarrow> response" where
  "login L d r =
     (if \<not> truthy (l_email r) \<or> \<not> truthy (l_password r)
      then Resp 400 (JError ''Email and password are required.'')
      else
        let user0 = map_option studentAccount (Student_findOne d (l_email r));
            (user, role) =
              (if user0 = None
               then (map_option orgAccount (Organization_findOne d (l_email r)), ''organization'')
               else (user0, ''student''))
        in
        (case user of
           None \<Rightarrow> Resp 400 (JError ''Invalid credentials.'')
         | Some u \<Rightarrow>
             let isMatch = bcryptCompare L (strVal (l_password r)) (a_password u) in
             if \<not> isMatch then Resp 400 (JError ''Invalid credentials.'')
             else Resp 200 (JLogin \<lparr>li_role = role,
                                    li_email = a_email u,
                                    li_id = a_id u,
                                    li_orgId = (if role = ''organization'' then Some (a_id u) else None)\<rparr>)))"

section \<open>CV routes\<close>

record cvReq =
  v_email :: jsval
  v_firstName :: jsval
  v_lastName :: jsval
  v_phone :: jsval
  v_address :: jsval
  v_education :: jsval
  v_skills :: jsval
  v_experience :: jsval
  v_projects :: jsval
  v_certifications :: jsval

definition msgCvRequired :: string where
  "msgCvRequired = ''Email, First Name, Last Name, and Phone are required.''"

text \<open>POST /api/cv. The \<open>catch\<close> maps every error to 500.\<close>

definition saveCV :: "env \<Rightarrow> db \<Rightarrow> cvReq \<Rightarrow> db \<times> response" where
  "saveCV E d r =
     (if \<not> truthy (v_email r) \<or> \<not> truthy (v_firstName r) \<or> \<not> truthy (v_lastName r)
         \<or> \<not> truthy (v_phone r)
      then (d, Resp 400 (JError msgCvRequired))
      else
        (case Student_findOne d (v_email r) of
           None \<Rightarrow> (d, Resp 400 (JError ''Student not found.''))
         | Some found \<Rightarrow>
             let student = found\<lparr>
                   s_firstName := Some (setPath profilePath (strVal (v_firstName r))),
                   s_lastName := Some (setPath profilePath (strVal (v_lastName r))),
                   s_phone := Some (setPath profilePath (strVal (v_phone r))),
                   s_address := Some (setPath profilePath (orElse (v_address r) [])),
                   s_education := Some (setPath profilePath (orElse (v_education r) [])),
                   s_skills := Some (setPath profilePath (orElse (v_skills r) [])),
                   s_experience := Some (setPath profilePath (orElse (v_experience r) [])),
                   s_projects := Some (setPath profilePath (orElse (v_projects r) [])),
                   s_certifications := Some (setPath profilePath (orElse (v_certifications r) []))\<rparr>
             in
             (case Student_update E d found student of
                Inl e \<Rightarrow> (d, Resp 500 (JError ''Server error during CV save.''))
              | Inr (d', saved) \<Rightarrow>
                  (d', Resp 200 (JCv ''CV saved successfully!''
                     \<lparr>cv_firstName = s_firstName saved,
                      cv_lastName = s_lastName saved,
                      cv_email = s_email saved,
                      cv_phone = s_phone saved,
                      cv_address = s_address saved,
                      cv_education = s_education saved,
                      cv_skills = s_skills saved,
                      cv_experience = s_experience saved,
                      cv_projects = s_projects saved,
                      cv_certifications = s_certifications saved\<rparr>)))))"

text \<open>
  Every student email in the collection was written through the schema's setter, so it
  is its own trimmed form. The handlers keep this (lemmas below); the empty store has it.
\<close>

definition emailsTrimmed :: "db \<Rightarrow> bool" where
  "emailsTrimmed d = list_all (\<lambda>s. trim (s_email s) = s_email s) (students d)"

section \<open>A reference instance of the libraries\<close>

text \<open>
  To run the handlers on concrete requests the parameters need values. This instance
  casts the 24-digit hexadecimal form of an ObjectId (to lower case), parses the ISO
  date form \<open>YYYY-MM-DD\<close> (midnight UTC, proleptic Gregorian calendar) and nothing else,
  and stands in for bcrypt with a hash that is the salt, a separator and the password.
\<close>

definition hexDigit :: "char \<Rightarrow> bool" where
  "hexDigit c = (c \<in> set ''0123456789abcdefABCDEF'')"

definition lowerHex :: "char \<Rightarrow> char" where
  "lowerHex c =
     (if c = CHR ''A'' then CHR ''a'' else if c = CHR ''B'' then CHR ''b''
      else if c = CHR ''C'' then CHR ''c'' else if c = CHR ''D'' then CHR ''d''
      else if c = CHR ''E'' then CHR ''e'' else if c = CHR ''F'' then CHR ''f'' else c)"

definition refCastObjectId :: "string \<Rightarrow> oid option" where
  "refCastObjectId s =
     (if length s = 24 \<and> list_all hexDigit s then Some (map lowerHex s) else None)"

definition isDigit :: "char \<Rightarrow> bool" where
  "isDigit c = (c \<in> set ''0123456789'')"

definition digitsVal :: "string \<Rightarrow> int" where
  "digitsVal s = foldl (\<lambda>a c. 10 * a + (of_char c - 48)) 0 s"

definition daysFromCivil :: "int \<Rightarrow> int \<Rightarrow> int \<Rightarrow> int" where
  "daysFromCivil y m dd =
     (let y' = (if m \<le> 2 then y - 1 else y);
          era = y' div 400;
          yoe = y' - era * 400;
          mp = (m + 9) mod 12;
          doy = (153 * mp + 2) div 5 + dd - 1;
          doe = yoe * 365 + yoe div 4 - yoe div 100 + doy
      in era * 146097 + doe - 719468)"

definition daysInMonth :: "int \<Rightarrow> int \<Rightarrow> int" where
  "daysInMonth y m =
     (if m = 2 then (if y mod 4 = 0 \<and> (y mod 100 \<noteq> 0 \<or> y mod 400 = 0) then 29 else 28)
      else if m \<in> {4, 6, 9, 11} then 30 else 31)"

definition refDateParse :: "string \<Rightarrow> int option" where
  "refDateParse s =
     (if length s = 10 \<and> s ! 4 = CHR ''-'' \<and> s ! 7 = CHR ''-''
         \<and> list_all isDigit (take 4 s @ take 2 (drop 5 s) @ drop 8 s)
      then (let y = digitsVal (take 4 s);
                m = digitsVal (take 2 (drop 5 s));
                dd = digitsVal (drop 8 s)
            in if 1 \<le> m \<and> m \<le> 12 \<and> 1 \<le> dd \<and> dd \<le> daysInMonth y m
               then Some (daysFromCivil y m dd * 86400000) else None)
      else None)"

definition refLib :: lib where
  "refLib = \<lparr>castObjectId = refCastObjectId,
     dateParse = refDateParse,
     bcryptHash = (\<lambda>pw salt. salt @ ''$'' @ pw),
     bcryptCompare = (\<lambda>pw h. drop (length h - Suc (length pw)) h = CHR ''$'' # pw)\<rparr>"

section \<open>Sample stores and requests\<close>

text \<open>
  A store with one student, one organization and two of its posts, and requests against
  it; the create request is the example of the specification.
\<close>

definition exEnv :: env where
  "exEnv = \<lparr>e_now = 1700000000000, e_newId = ''65a000000000000000000003'', e_salt = ''s4lt''\<rparr>"

definition exOrgId :: oid where
  "exOrgId = ''64b7f0c2a1d3e4f5a6b7c8d9''"

definition exPostId :: oid where
  "exPostId = ''65a000000000000000000001''"

definition exDescription :: string where
  "exDescription = ''xxxxxxxxxxxxxxxxxxxxxxxxx''"

definition exStudent :: student where
  "exStudent = \<lparr>s_id = ''63f000000000000000000001'',
     s_email = ''ana@example.org'',
     s_password = ''s4lt$secret'',
     s_firstName = Some ''Ana'',
     s_lastName = Some ''Lima'',
     s_phone = Some ''555-0100'',
     s_address = Some ''1 Main Street'',
     s_education = Some ''BSc'',
     s_skills = Some ''SQL'',
     s_experience = None,
     s_projects = None,
     s_certifications = None,
     s_createdAt = 1680000000000,
     s_updatedAt = 1680000000000\<rparr>"

definition exOrganization :: organization where
  "exOrganization = \<lparr>o_id = exOrgId,
     o_orgName = ''Acme'',
     o_email = ''hr@acme.example'',
     o_phone = Some [],
     o_password = ''s4lt$hunter2'',
     o_createdAt = 1681000000000,
     o_updatedAt = 1681000000000\<rparr>"

definition exPost :: post where
  "exPost = \<lparr>p_id = exPostId,
     p_orgId = exOrgId,
     p_orgName = ''Acme'',
     p_title = ''Intern'',
     p_type = ''Internship'',
     p_description = exDescription,
     p_location = ''Onsite'',
     p_durationStart = Some 1704844800000,
     p_durationEnd = Some 1709251200000,
     p_deadline = Some 1704067200000,
     p_applicationLink = ''https://acme.example/apply'',
     p_status = ''active'',
     p_createdAt = 1690000000000,
     p_updatedAt = 1690000000000,
     p_v = Some 0\<rparr>"

definition exDraft :: post where
  "exDraft = exPost\<lparr>p_id := ''65a000000000000000000002'',
     p_title := ''Mentor'',
     p_type := ''Mentorship'',
     p_status := ''draft'',
     p_createdAt := 1695000000000,
     p_updatedAt := 1695000000000\<rparr>"

definition exDb :: db where
  "exDb = \<lparr>students = [exStudent], organizations = [exOrganization], posts = [exPost, exDraft]\<rparr>"

definition exCreate :: createReq where
  "exCreate = \<lparr>c_orgId = JStr exOrgId,
     c_orgName = JStr ''Acme'',
     c_title = JStr ''Intern'',
     c_type = JStr ''Internship'',
     c_description = JStr exDescription,
     c_location = JUndefined,
     c_durationStart = JUndefined,
     c_durationEnd = JUndefined,
     c_deadline = JUndefined,
     c_applicationLink = JUndefined,
     c_status = JUndefined\<rparr>"

definition exCreated :: post where
  "exCreated = \<lparr>p_id = ''65a000000000000000000003'',
     p_orgId = exOrgId,
     p_orgName = ''Acme'',
     p_title = ''Intern'',
     p_type = ''Internship'',
     p_description = exDescription,
     p_location = ''Remote'',
     p_durationStart = None,
     p_durationEnd = None,
     p_deadline = None,
     p_applicationLink = [],
     p_status = ''draft'',
     p_createdAt = 1700000000000,
     p_updatedAt = 1700000000000,
     p_v = Some 0\<rparr>"

definition exUpdate :: updateReq where
  "exUpdate = \<lparr>u_title = JStr ''Summer intern'',
     u_type = JStr ''Internship'',
     u_description = JStr exDescription,
     u_location = JUndefined,
     u_durationStart = JUndefined,
     u_durationEnd = JUndefined,
     u_deadline = JUndefined,
     u_applicationLink = JUndefined\<rparr>"

definition exUpdated :: post where
  "exUpdated = exPost\<lparr>p_title := ''Summer intern'',
     p_location := ''Remote'',
     p_durationStart := None,
     p_durationEnd := None,
     p_deadline := None,
     p_applicationLink := [],
     p_updatedAt := 1700000000000\<rparr>"

definition exRegister :: registerReq where
  "exRegister = \<lparr>r_role = JStr ''organization'',
     r_firstName = JUndefined,
     r_lastName = JUndefined,
     r_email = JStr ''ana@example.org'',
     r_phone = JUndefined,
     r_password = JStr ''pw'',
     r_orgName = JStr ''Initech'',
     r_orgTerms = JStr ''yes''\<rparr>"

definition exLogin :: loginReq where
  "exLogin = \<lparr>l_email = JStr ''hr@acme.example'', l_password = JStr ''hunter2''\<rparr>"

definition exLoginPadded :: loginReq where
  "exLoginPadded = \<lparr>l_email = JStr '' ana@example.org'', l_password = JStr ''secret''\<rparr>"

definition exCv :: cvReq where
  "exCv = \<lparr>v_email = JStr ''ana@example.org'',
     v_firstName = JStr ''Ana'',
     v_lastName = JStr ''Lima'',
     v_phone = JStr ''555-0100'',
     v_address = JUndefined,
     v_education = JUndefined,
     v_skills = JUndefined,
     v_experience = JUndefined,
     v_projects = JUndefined,
     v_certifications = JUndefined\<rparr>"

definition exCvSaved :: student where
  "exCvSaved = exStudent\<lparr>s_address := Some [],
     s_education := Some [],
     s_skills := Some [],
     s_experience := Some [],
     s_projects := Some [],
     s_certifications := Some [],
     s_updatedAt := 1700000000000\<rparr>"

definition exCvInfo :: cvInfo where
  "exCvInfo = \<lparr>cv_firstName = Some ''Ana'',
     cv_lastName = Some ''Lima'',
     cv_email = ''ana@example.org'',
     cv_phone = Some ''555-0100'',
     cv_address = Some [],
     cv_education = Some [],
     cv_skills = Some [],
     cv_experience = Some [],
     cv_projects = Some [],
     cv_certifications = Some []\<rparr>"

definition exUpdateLinked :: updateReq where
  "exUpdateLinked = exUpdate\<lparr>u_applicationLink := JStr ''https://acme.example/summer''\<rparr>"

definition exUpdatedLinked :: post where
  "exUpdatedLinked = exUpdated\<lparr>p_applicationLink := ''https://acme.example/summer''\<rparr>"

definition exPublicPost :: post where
  "exPublicPost = \<lparr>p_id = ''65a000000000000000000001'',
     p_orgId = ''64b7f0c2a1d3e4f5a6b7c8d9'',
     p_orgName = ''Acme'',
     p_title = ''Intern'',
     p_type = ''Internship'',
     p_description = ''xxxxxxxxxxxxxxxxxxxxxxxxx'',
     p_location = ''Onsite'',
     p_durationStart = Some 1704844800000,
     p_durationEnd = Some 1709251200000,
     p_deadline = Some 1704067200000,
     p_applicationLink = ''https://acme.example/apply'',
     p_status = ''active'',
     p_createdAt = 1690000000000,
     p_updatedAt = 1690000000000,
     p_v = None\<rparr>"

definition exRegisterPadded :: registerReq where
  "exRegisterPadded = \<lparr>r_role = JStr ''student'',
     r_firstName = JStr ''Hal'',
     r_lastName = JStr ''Roe'',
     r_email = JStr '' hr@acme.example'',
     r_phone = JStr ''555-0101'',
     r_password = JStr ''pw'',
     r_orgName = JUndefined,
     r_orgTerms = JUndefined\<rparr>"

definition exRegistered :: student where
  "exRegistered = \<lparr>s_id = ''65a000000000000000000003'',
     s_email = ''hr@acme.example'',
     s_password = ''s4lt$pw'',
     s_firstName = Some ''Hal'',
     s_lastName = Some ''Roe'',
     s_phone = Some ''555-0101'',
     s_address = None,
     s_education = None,
     s_skills = None,
     s_experience = None,
     s_projects = None,
     s_certifications = None,
     s_createdAt = 1700000000000,
     s_updatedAt = 1700000000000\<rparr>"

section \<open>Basic facts\<close>

lemmas schemaDefs = orgNamePath_def titlePath_def typePath_def descriptionPath_def
  locationPath_def statusPath_def plainPath_def studentEmailPath_def passwordPath_def
  profilePath_def orgEmailPath_def orgPhonePath_def validatePath_def setPath_def trim_def
  isWhite_def httpUrl_def orElse_def parseDate_def

lemmas refDefs = refLib_def refCastObjectId_def hexDigit_def lowerHex_def refDateParse_def
  isDigit_def digitsVal_def daysFromCivil_def daysInMonth_def

lemmas exDefs3 = exUpdateLinked_def exUpdatedLinked_def exPublicPost_def exRegisterPadded_def
  exRegistered_def

lemmas exDefs = exEnv_def exOrgId_def exPostId_def exDescription_def exStudent_def
  exOrganization_def exPost_def exDraft_def exDb_def exCreate_def exCreated_def exUpdate_def
  exUpdated_def emptyDb_def

lemma trim_Nil: "trim [] = []"
  by (simp add: trim_def)

lemma dropWhile_fixed: "xs = [] \<or> \<not> P (hd xs) \<Longrightarrow> dropWhile P xs = xs"
  by (cases xs) auto

text \<open>Trimming a trimmed string changes nothing.\<close>

lemma trim_idem: "trim (trim s) = trim s"
proof -
  define t where "t = dropWhile isWhite s"
  define u where "u = rev (dropWhile isWhite (rev t))"
  have tu: "t = u @ rev (takeWhile isWhite (rev t))"
  proof -
    have "u @ rev (takeWhile isWhite (rev t))
        = rev (takeWhile isWhite (rev t) @ dropWhile isWhite (rev t))"
      by (simp only: u_def rev_append)
    also have "\<dots> = rev (rev t)"
      by (simp only: takeWhile_dropWhile_id)
    finally show ?thesis by simp
  qed
  have t0: "t = [] \<or> \<not> isWhite (hd t)"
    unfolding t_def by (cases "dropWhile isWhite s = []") (auto simp: hd_dropWhile)
  have u0: "u = [] \<or> \<not> isWhite (hd u)"
  proof (cases "u = []")
    case True
    then show ?thesis by simp
  next
    case False
    then have "hd t = hd u" using tu by (metis hd_append2)
    moreover have "t \<noteq> []" using False tu by auto
    ultimately show ?thesis using t0 by simp
  qed
  have 1: "dropWhile isWhite u = u"
    using u0 by (rule dropWhile_fixed [of u isWhite])
  have 2: "dropWhile isWhite (rev u) = rev u"
    by (simp add: u_def dropWhile_idem)
  have "trim u = u" by (simp add: trim_def 1 2)
  moreover have "trim s = u" by (simp add: trim_def u_def t_def)
  ultimately show ?thesis by simp
qed

lemma find_SomeD: "find P xs = Some x \<Longrightarrow> P x \<and> x \<in> set xs"
  by (induction xs) (auto split: if_splits)

lemma find_replaceFirst:
  "P y \<Longrightarrow> x \<in> set xs \<Longrightarrow> P x \<Longrightarrow> find P (replaceFirst P y xs) = Some y"
  by (induction xs) auto

lemma map_replaceFirst:
  "find P xs = Some x \<Longrightarrow> f y = f x \<Longrightarrow> map f (replaceFirst P y xs) = map f xs"
  by (induction xs) (auto split: if_splits)

lemma set_replaceFirst: "set (replaceFirst P y xs) \<subseteq> insert y (set xs)"
  by (induction xs) auto

lemma parseDate_unparseable: "dateParse L s = None \<Longrightarrow> parseDate L (JStr s) = None"
  by (simp add: parseDate_def)

lemma parseDate_absent: "parseDate L JUndefined = None"
  by (simp add: parseDate_def)

lemma mset_sortNewestFirst: "mset (sortNewestFirst ps) = mset ps"
  by (simp add: sortNewestFirst_def)

lemma sorted_sortNewestFirst:
  "sorted_wrt (\<lambda>a b. p_createdAt b \<le> p_createdAt a) (sortNewestFirst ps)"
proof -
  have "sorted (map (\<lambda>p. - p_createdAt p) (sortNewestFirst ps))"
    unfolding sortNewestFirst_def by (rule sorted_sort_key)
  then show ?thesis
    by (simp add: sorted_map)
qed

lemma sorted_dropVersion:
  "sorted_wrt (\<lambda>a b. p_createdAt b \<le> p_createdAt a) ps \<Longrightarrow>
   sorted_wrt (\<lambda>a b. p_createdAt b \<le> p_createdAt a) (map dropVersion ps)"
  by (simp add: sorted_wrt_map dropVersion_def)

section \<open>Creating a post\<close>

text \<open>
  Claim C1, as the code has it. Take a create request without \<open>applicationLink\<close> whose
  required fields are present, whose status is absent, draft or active, whose \<open>orgId\<close>
  is well formed, whose dates are in order, whose \<open>orgName\<close>, \<open>title\<close>, \<open>type\<close> and
  \<open>description\<close> pass their validators, and let the generated \<open>_id\<close> be new. With
  the first revision of the Post schema the post is stored and returned with 201, and its
  \<open>applicationLink\<close> is the empty string. With the second revision, where the path is
  required, the same request is answered 400 with the validator error of
  \<open>applicationLink\<close>, and nothing is stored.
\<close>

theorem create_without_applicationLink:
  assumes absent: "c_applicationLink r = JUndefined"
    and present: "truthy (c_orgId r)" "truthy (c_orgName r)" "truthy (c_title r)"
      "truthy (c_type r)" "truthy (c_description r)"
    and status: "c_status r = JUndefined \<or> c_status r = JStr ''draft'' \<or> c_status r = JStr ''active''"
    and orgId: "isValid L (c_orgId r)"
    and dates: "\<not> startAfterEnd (parseDate L (c_durationStart r)) (parseDate L (c_durationEnd r))"
    and title: "validatePath ''title'' titlePath (setPath titlePath (strVal (c_title r))) = []"
    and type: "validatePath ''type'' typePath (setPath typePath (strVal (c_type r))) = []"
    and descr: "validatePath ''description'' descriptionPath
                  (setPath descriptionPath (strVal (c_description r))) = []"
    and fresh: "e_newId E \<notin> set (map p_id (posts d))"
  shows "(\<exists>p. createPost FirstRevision L E d r = (d\<lparr>posts := posts d @ [p]\<rparr>, Resp 201 (JPost p))
            \<and> p_applicationLink p = [])
       \<and> createPost SecondRevision L E d r
           = (d, Resp 400 (JValidation [VRequired ''applicationLink'']))"
proof -
  obtain s where s: "c_orgId r = JStr s" "s \<noteq> []"
    using present(1) by (cases "c_orgId r") auto
  obtain oi where oi: "castObjectId L s = Some oi"
    using orgId s by auto
  obtain n where n: "c_orgName r = JStr n" "n \<noteq> []"
    using present(2) by (cases "c_orgName r") auto
  have st: "validatePath ''status'' statusPath
      (setPath statusPath (strVal (if c_status r = JUndefined then JStr ''draft'' else c_status r))) = []"
    using status by (auto simp: validatePath_def statusPath_def plainPath_def setPath_def)
  have stat: "\<not> ((if c_status r = JUndefined then JStr ''draft'' else c_status r) \<noteq> JStr ''draft''
       \<and> (if c_status r = JUndefined then JStr ''draft'' else c_status r) \<noteq> JStr ''active'')"
    using status by auto
  have on: "validatePath ''orgName'' orgNamePath (setPath orgNamePath (strVal (c_orgName r))) = []"
    using n by (simp add: validatePath_def orgNamePath_def plainPath_def setPath_def)
  have loc: "validatePath ''location'' locationPath x = []" for x
    by (simp add: validatePath_def locationPath_def plainPath_def)
  have al1: "setPath (applicationLinkPath FirstRevision) (orElse JUndefined []) = []"
    by (simp add: setPath_def orElse_def trim_Nil plainPath_def)
  have al2: "setPath (applicationLinkPath SecondRevision) (orElse JUndefined []) = []"
    by (simp add: setPath_def orElse_def plainPath_def)
  have v1: "validatePath ''applicationLink'' (applicationLinkPath FirstRevision) [] = []"
    by (simp add: validatePath_def plainPath_def)
  have v2: "validatePath ''applicationLink'' (applicationLinkPath SecondRevision) []
      = [VRequired ''applicationLink'']"
    by (simp add: validatePath_def plainPath_def)
  have first: "\<exists>p. createPost FirstRevision L E d r = (d\<lparr>posts := posts d @ [p]\<rparr>, Resp 201 (JPost p))
            \<and> p_applicationLink p = []"
    using present stat orgId dates s oi fresh
    by (simp add: createPost_def Let_def Post_save_def Post_validate_def absent al1 v1 on title type
        descr loc st del: applicationLinkPath.simps)
  have second: "createPost SecondRevision L E d r
           = (d, Resp 400 (JValidation [VRequired ''applicationLink'']))"
    using present stat orgId dates s oi fresh
    by (simp add: createPost_def Let_def Post_save_def Post_validate_def absent al2 v2 on title type
        descr loc st del: applicationLinkPath.simps)
  from first second show ?thesis by blast
qed

text \<open>The example request of the specification, against the sample store.\<close>

theorem create_without_applicationLink_witness:
  "c_applicationLink exCreate = JUndefined
   \<and> (\<exists>p. createPost FirstRevision refLib exEnv exDb exCreate
            = (exDb\<lparr>posts := posts exDb @ [p]\<rparr>, Resp 201 (JPost p))
          \<and> p_applicationLink p = [])
   \<and> createPost SecondRevision refLib exEnv exDb exCreate
        = (exDb, Resp 400 (JValidation [VRequired ''applicationLink'']))"
proof -
  have a: "c_applicationLink exCreate = JUndefined"
    by (simp add: exCreate_def)
  have b: "(\<exists>p. createPost FirstRevision refLib exEnv exDb exCreate
            = (exDb\<lparr>posts := posts exDb @ [p]\<rparr>, Resp 201 (JPost p))
          \<and> p_applicationLink p = [])
   \<and> createPost SecondRevision refLib exEnv exDb exCreate
        = (exDb, Resp 400 (JValidation [VRequired ''applicationLink'']))"
    by (rule create_without_applicationLink) (simp_all add: exDefs schemaDefs refDefs)
  from a b show ?thesis by (rule conjI)
qed

text \<open>
  Claim C1 as stated fails on the second revision of the schema: the example request,
  which has no \<open>applicationLink\<close> and is valid otherwise, is refused and the store is
  left as it was.
\<close>

theorem create_without_applicationLink_second_revision:
  "c_applicationLink exCreate = JUndefined
   \<and> createPost SecondRevision refLib exEnv exDb exCreate
        = (exDb, Resp 400 (JValidation [VRequired ''applicationLink'']))"
  by (simp add: createPost_def Let_def Post_save_def Post_validate_def exDefs schemaDefs refDefs)

text \<open>
  Claim C3. When \<open>durationStart\<close> and \<open>durationEnd\<close> of a create request both parse
  and the start is after the end, the request is answered 400 with an error message
  (one of the handler's four validation messages) and the store is unchanged.
\<close>

theorem create_start_after_end_rejected:
  assumes "parseDate L (c_durationStart r) = Some a"
    and "parseDate L (c_durationEnd r) = Some b"
    and "b < a"
  shows "\<exists>m. m \<in> set [msgCreateRequired, msgStatus, ''Invalid orgId format'', msgStartAfterEnd]
           \<and> createPost sch L E d r = (d, Resp 400 (JError m))"
  using assms by (simp add: createPost_def Let_def)

theorem create_start_after_end_rejected_witness:
  "parseDate refLib (JStr ''2024-03-01'') = Some 1709251200000
   \<and> parseDate refLib (JStr ''2024-01-10'') = Some 1704844800000
   \<and> (\<exists>m. m \<in> set [msgCreateRequired, msgStatus, ''Invalid orgId format'', msgStartAfterEnd]
           \<and> createPost FirstRevision refLib exEnv exDb
                (exCreate\<lparr>c_durationStart := JStr ''2024-03-01'', c_durationEnd := JStr ''2024-01-10''\<rparr>)
              = (exDb, Resp 400 (JError m)))"
proof -
  have s: "parseDate refLib (JStr ''2024-03-01'') = Some 1709251200000"
    by (simp add: schemaDefs refDefs)
  have e: "parseDate refLib (JStr ''2024-01-10'') = Some 1704844800000"
    by (simp add: schemaDefs refDefs)
  have "\<exists>m. m \<in> set [msgCreateRequired, msgStatus, ''Invalid orgId format'', msgStartAfterEnd]
           \<and> createPost FirstRevision refLib exEnv exDb
                (exCreate\<lparr>c_durationStart := JStr ''2024-03-01'', c_durationEnd := JStr ''2024-01-10''\<rparr>)
              = (exDb, Resp 400 (JError m))"
    by (rule create_start_after_end_rejected [where a = 1709251200000 and b = 1704844800000])
       (simp_all add: s e)
  with s e show ?thesis by blast
qed

text \<open>The update handler makes the same check before it touches the store.\<close>

lemma update_start_after_end_rejected:
  assumes "parseDate L (u_durationStart r) = Some a"
    and "parseDate L (u_durationEnd r) = Some b"
    and "b < a"
  shows "\<exists>m. updatePost sch L E d ident r = (d, Resp 400 (JError m))"
  using assms by (simp add: updatePost_def Let_def)

section \<open>Updating a post\<close>

text \<open>What a successful update did: the post found under the identifier, and what replaced it.\<close>

lemma updatePost_200:
  assumes "updatePost sch L E d ident r = (d', Resp 200 b)"
  shows "\<exists>i p p'. castObjectId L ident = Some i
      \<and> find (\<lambda>q. p_id q = i) (posts d) = Some p
      \<and> p' = p\<lparr>p_title := setPath titlePath (strVal (u_title r)),
               p_type := setPath typePath (strVal (u_type r)),
               p_description := setPath descriptionPath (strVal (u_description r)),
               p_location := setPath locationPath (orElse (u_location r) ''Remote''),
               p_durationStart := parseDate L (u_durationStart r),
               p_durationEnd := parseDate L (u_durationEnd r),
               p_deadline := parseDate L (u_deadline r),
               p_applicationLink := setPath (applicationLinkPath sch) (orElse (u_applicationLink r) []),
               p_updatedAt := e_now E\<rparr>
      \<and> d' = d\<lparr>posts := replaceFirst (\<lambda>q. p_id q = i) p' (posts d)\<rparr>
      \<and> b = JPost p'"
  using assms
  by (auto simp: updatePost_def Post_findByIdAndUpdate_def Let_def applyUpdate_def
      split: if_splits option.splits sum.splits dberr.splits prod.splits)

lemma updatePost_stored:
  assumes "find (\<lambda>q. p_id q = i) (posts d) = Some p"
    and "p_id p' = p_id p"
  shows "find (\<lambda>q. p_id q = i) (posts (d\<lparr>posts := replaceFirst (\<lambda>q. p_id q = i) p' (posts d)\<rparr>))
           = Some p'"
proof -
  have "p_id p = i" "p \<in> set (posts d)"
    using find_SomeD [OF assms(1)] by auto
  then show ?thesis
    using find_replaceFirst [of "\<lambda>q. p_id q = i" p' p "posts d"] assms(2) by simp
qed

text \<open>
  Whenever an update is answered 200, the post stored under the identifier is the one
  returned, and whatever it held before: its location is "Remote" when the request omits
  \<open>location\<close>, each of its three dates is absent when the request omits it, and its
  \<open>applicationLink\<close> is the empty string when the request omits \<open>applicationLink\<close>.
\<close>

lemma update_resets_omitted_fields:
  assumes "updatePost sch L E d ident r = (d', Resp 200 b)"
  shows "\<exists>i p p'. castObjectId L ident = Some i
      \<and> find (\<lambda>q. p_id q = i) (posts d) = Some p
      \<and> find (\<lambda>q. p_id q = i) (posts d') = Some p'
      \<and> b = JPost p'
      \<and> (u_location r = JUndefined \<longrightarrow> p_location p' = ''Remote'')
      \<and> (u_durationStart r = JUndefined \<longrightarrow> p_durationStart p' = None)
      \<and> (u_durationEnd r = JUndefined \<longrightarrow> p_durationEnd p' = None)
      \<and> (u_deadline r = JUndefined \<longrightarrow> p_deadline p' = None)
      \<and> (u_applicationLink r = JUndefined \<longrightarrow> p_applicationLink p' = [])"
proof -
  from updatePost_200 [OF assms] obtain i p p' where
    i: "castObjectId L ident = Some i"
    and p: "find (\<lambda>q. p_id q = i) (posts d) = Some p"
    and p': "p' = p\<lparr>p_title := setPath titlePath (strVal (u_title r)),
               p_type := setPath typePath (strVal (u_type r)),
               p_description := setPath descriptionPath (strVal (u_description r)),
               p_location := setPath locationPath (orElse (u_location r) ''Remote''),
               p_durationStart := parseDate L (u_durationStart r),
               p_durationEnd := parseDate L (u_durationEnd r),
               p_deadline := parseDate L (u_deadline r),
               p_applicationLink := setPath (applicationLinkPath sch) (orElse (u_applicationLink r) []),
               p_updatedAt := e_now E\<rparr>"
    and d': "d' = d\<lparr>posts := replaceFirst (\<lambda>q. p_id q = i) p' (posts d)\<rparr>"
    and b: "b = JPost p'"
    by blast
  have "p_id p' = p_id p" by (simp add: p')
  then have stored: "find (\<lambda>q. p_id q = i) (posts d') = Some p'"
    unfolding d' by (rule updatePost_stored [OF p])
  have loc: "u_location r = JUndefined \<longrightarrow> p_location p' = ''Remote''"
    by (simp add: p' setPath_def locationPath_def plainPath_def orElse_def)
  have ds: "u_durationStart r = JUndefined \<longrightarrow> p_durationStart p' = None"
    by (simp add: p' parseDate_def)
  have de: "u_durationEnd r = JUndefined \<longrightarrow> p_durationEnd p' = None"
    by (simp add: p' parseDate_def)
  have dl: "u_deadline r = JUndefined \<longrightarrow> p_deadline p' = None"
    by (simp add: p' parseDate_def)
  have al: "u_applicationLink r = JUndefined \<longrightarrow> p_applicationLink p' = []"
    by (cases sch) (simp_all add: p' setPath_def plainPath_def orElse_def trim_Nil)
  from i p stored b loc ds de dl al show ?thesis by blast
qed

text \<open>
  An update of the sample post that names only title, type and description: the post
  was on site, with three dates and a link, and is stored remote, without dates and
  without a link.
\<close>

lemma exUpdate_result:
  "updatePost FirstRevision refLib exEnv exDb exPostId exUpdate
     = (exDb\<lparr>posts := [exUpdated, exDraft]\<rparr>, Resp 200 (JPost exUpdated))"
  by (simp add: updatePost_def Post_findByIdAndUpdate_def applyUpdate_def Let_def
      exDefs schemaDefs refDefs)

text \<open>
  With the second revision of the schema the update validators refuse the empty
  \<open>applicationLink\<close> that an omitted field becomes, before the query runs.
\<close>

lemma update_without_applicationLink_second_revision:
  assumes "u_applicationLink r = JUndefined"
  shows "statusOf (snd (updatePost SecondRevision L E d ident r)) \<noteq> 200"
proof -
  have v: "validatePath ''applicationLink'' (applicationLinkPath SecondRevision)
             (setPath (applicationLinkPath SecondRevision) (orElse JUndefined []))
           = [VRequired ''applicationLink'']"
    by (simp add: validatePath_def setPath_def orElse_def plainPath_def)
  show ?thesis
    by (simp add: updatePost_def Post_findByIdAndUpdate_def Let_def assms v
        del: applicationLinkPath.simps split: option.split)
qed

text \<open>What the update handler does with a request that passes every check, for a post that exists.\<close>

lemma updatePost_accepted:
  assumes present: "truthy (u_title r)" "truthy (u_type r)" "truthy (u_description r)"
    and dates: "\<not> startAfterEnd (parseDate L (u_durationStart r)) (parseDate L (u_durationEnd r))"
    and title: "validatePath ''title'' titlePath (setPath titlePath (strVal (u_title r))) = []"
    and type: "validatePath ''type'' typePath (setPath typePath (strVal (u_type r))) = []"
    and descr: "validatePath ''description'' descriptionPath
                  (setPath descriptionPath (strVal (u_description r))) = []"
    and link: "validatePath ''applicationLink'' (applicationLinkPath sch)
                  (setPath (applicationLinkPath sch) (orElse (u_applicationLink r) [])) = []"
    and ident: "castObjectId L ident = Some i"
    and stored: "find (\<lambda>q. p_id q = i) (posts d) = Some p"
  shows "\<exists>d' p'. updatePost sch L E d ident r = (d', Resp 200 (JPost p'))
           \<and> find (\<lambda>q. p_id q = i) (posts d') = Some p'
           \<and> p_location p' = orElse (u_location r) ''Remote''
           \<and> p_durationStart p' = parseDate L (u_durationStart r)
           \<and> p_durationEnd p' = parseDate L (u_durationEnd r)
           \<and> p_deadline p' = parseDate L (u_deadline r)
           \<and> p_applicationLink p'
               = setPath (applicationLinkPath sch) (orElse (u_applicationLink r) [])"
proof -
  let ?p' = "p\<lparr>p_title := setPath titlePath (strVal (u_title r)),
               p_type := setPath typePath (strVal (u_type r)),
               p_description := setPath descriptionPath (strVal (u_description r)),
               p_location := setPath locationPath (orElse (u_location r) ''Remote''),
               p_durationStart := parseDate L (u_durationStart r),
               p_durationEnd := parseDate L (u_durationEnd r),
               p_deadline := parseDate L (u_deadline r),
               p_applicationLink := setPath (applicationLinkPath sch) (orElse (u_applicationLink r) []),
               p_updatedAt := e_now E\<rparr>"
  let ?d' = "d\<lparr>posts := replaceFirst (\<lambda>q. p_id q = i) ?p' (posts d)\<rparr>"
  have loc: "validatePath ''location'' locationPath x = []" for x
    by (simp add: validatePath_def locationPath_def plainPath_def)
  have res: "updatePost sch L E d ident r = (?d', Resp 200 (JPost ?p'))"
    using present dates ident stored
    by (simp add: updatePost_def Post_findByIdAndUpdate_def applyUpdate_def Let_def
        title type descr link loc del: applicationLinkPath.simps)
  have "p_id ?p' = p_id p" by simp
  then have st: "find (\<lambda>q. p_id q = i) (posts ?d') = Some ?p'"
    by (rule updatePost_stored [OF stored])
  have l: "p_location ?p' = orElse (u_location r) ''Remote''"
    by (simp add: setPath_def locationPath_def plainPath_def)
  have f: "p_durationStart ?p' = parseDate L (u_durationStart r)"
    "p_durationEnd ?p' = parseDate L (u_durationEnd r)"
    "p_deadline ?p' = parseDate L (u_deadline r)"
    "p_applicationLink ?p' = setPath (applicationLinkPath sch) (orElse (u_applicationLink r) [])"
    by simp_all
  from res st l f show ?thesis by blast
qed

text \<open>
  Claim C4, as the code has it. Take a post that exists and an update request for it
  that passes the handler's checks: title, type and description are present and pass
  their validators, and the dates are in order.

  With the first revision of the Post schema the request is answered 200 and the post
  stored under the identifier afterwards is the one returned: its location is "Remote"
  when the request omits \<open>location\<close>, each of its three dates is absent when the request
  omits it, and its \<open>applicationLink\<close> is the empty string when the request omits
  \<open>applicationLink\<close>, whatever the post held before.

  With the second revision, where \<open>applicationLink\<close> is required, a request that omits
  \<open>applicationLink\<close> is answered 400 with the validator error of that path and the store
  is unchanged; a request that carries a link starting with http:// or https:// is
  answered 200 and resets an omitted location and omitted dates in the same way.
\<close>

theorem update_full_replace_by_revision:
  assumes present: "truthy (u_title r)" "truthy (u_type r)" "truthy (u_description r)"
    and dates: "\<not> startAfterEnd (parseDate L (u_durationStart r)) (parseDate L (u_durationEnd r))"
    and title: "validatePath ''title'' titlePath (setPath titlePath (strVal (u_title r))) = []"
    and type: "validatePath ''type'' typePath (setPath typePath (strVal (u_type r))) = []"
    and descr: "validatePath ''description'' descriptionPath
                  (setPath descriptionPath (strVal (u_description r))) = []"
    and ident: "castObjectId L ident = Some i"
    and stored: "find (\<lambda>q. p_id q = i) (posts d) = Some p"
  shows "(\<exists>d' p'. updatePost FirstRevision L E d ident r = (d', Resp 200 (JPost p'))
            \<and> find (\<lambda>q. p_id q = i) (posts d') = Some p'
            \<and> (u_location r = JUndefined \<longrightarrow> p_location p' = ''Remote'')
            \<and> (u_durationStart r = JUndefined \<longrightarrow> p_durationStart p' = None)
            \<and> (u_durationEnd r = JUndefined \<longrightarrow> p_durationEnd p' = None)
            \<and> (u_deadline r = JUndefined \<longrightarrow> p_deadline p' = None)
            \<and> (u_applicationLink r = JUndefined \<longrightarrow> p_applicationLink p' = []))
       \<and> (u_applicationLink r = JUndefined \<longrightarrow>
            updatePost SecondRevision L E d ident r
              = (d, Resp 400 (JValidation [VRequired ''applicationLink''])))
       \<and> (truthy (u_applicationLink r) \<and> httpUrl (strVal (u_applicationLink r)) \<longrightarrow>
            (\<exists>d' p'. updatePost SecondRevision L E d ident r = (d', Resp 200 (JPost p'))
               \<and> find (\<lambda>q. p_id q = i) (posts d') = Some p'
               \<and> p_applicationLink p' = strVal (u_applicationLink r)
               \<and> (u_location r = JUndefined \<longrightarrow> p_location p' = ''Remote'')
               \<and> (u_durationStart r = JUndefined \<longrightarrow> p_durationStart p' = None)
               \<and> (u_durationEnd r = JUndefined \<longrightarrow> p_durationEnd p' = None)
               \<and> (u_deadline r = JUndefined \<longrightarrow> p_deadline p' = None)))"
proof (intro conjI impI)
  have v1: "validatePath ''applicationLink'' (applicationLinkPath FirstRevision)
      (setPath (applicationLinkPath FirstRevision) (orElse (u_applicationLink r) [])) = []"
    by (simp add: validatePath_def plainPath_def)
  from updatePost_accepted [OF present dates title type descr v1 ident stored, of E]
  obtain d' p' where
    res: "updatePost FirstRevision L E d ident r = (d', Resp 200 (JPost p'))"
    and st: "find (\<lambda>q. p_id q = i) (posts d') = Some p'"
    and l: "p_location p' = orElse (u_location r) ''Remote''"
    and f: "p_durationStart p' = parseDate L (u_durationStart r)"
      "p_durationEnd p' = parseDate L (u_durationEnd r)"
      "p_deadline p' = parseDate L (u_deadline r)"
    and a: "p_applicationLink p'
      = setPath (applicationLinkPath FirstRevision) (orElse (u_applicationLink r) [])"
    by blast
  have c1: "u_location r = JUndefined \<longrightarrow> p_location p' = ''Remote''"
    by (simp add: l orElse_def)
  have c2: "u_durationStart r = JUndefined \<longrightarrow> p_durationStart p' = None"
    by (simp add: f parseDate_def)
  have c3: "u_durationEnd r = JUndefined \<longrightarrow> p_durationEnd p' = None"
    by (simp add: f parseDate_def)
  have c4: "u_deadline r = JUndefined \<longrightarrow> p_deadline p' = None"
    by (simp add: f parseDate_def)
  have c5: "u_applicationLink r = JUndefined \<longrightarrow> p_applicationLink p' = []"
    by (simp add: a setPath_def plainPath_def orElse_def trim_Nil)
  from res st c1 c2 c3 c4 c5
  show "\<exists>d' p'. updatePost FirstRevision L E d ident r = (d', Resp 200 (JPost p'))
            \<and> find (\<lambda>q. p_id q = i) (posts d') = Some p'
            \<and> (u_location r = JUndefined \<longrightarrow> p_location p' = ''Remote'')
            \<and> (u_durationStart r = JUndefined \<longrightarrow> p_durationStart p' = None)
            \<and> (u_durationEnd r = JUndefined \<longrightarrow> p_durationEnd p' = None)
            \<and> (u_deadline r = JUndefined \<longrightarrow> p_deadline p' = None)
            \<and> (u_applicationLink r = JUndefined \<longrightarrow> p_applicationLink p' = [])"
    by blast
next
  assume omitted: "u_applicationLink r = JUndefined"
  have v2: "validatePath ''applicationLink'' (applicationLinkPath SecondRevision)
             (setPath (applicationLinkPath SecondRevision) (orElse JUndefined []))
           = [VRequired ''applicationLink'']"
    by (simp add: validatePath_def setPath_def orElse_def plainPath_def)
  have loc: "validatePath ''location'' locationPath x = []" for x
    by (simp add: validatePath_def locationPath_def plainPath_def)
  show "updatePost SecondRevision L E d ident r
          = (d, Resp 400 (JValidation [VRequired ''applicationLink'']))"
    using present dates ident
    by (simp add: updatePost_def Post_findByIdAndUpdate_def Let_def omitted v2 title type descr loc
        del: applicationLinkPath.simps)
next
  assume linked: "truthy (u_applicationLink r) \<and> httpUrl (strVal (u_applicationLink r))"
  then have sp: "setPath (applicationLinkPath SecondRevision) (orElse (u_applicationLink r) [])
      = strVal (u_applicationLink r)"
    by (simp add: setPath_def plainPath_def orElse_def)
  have ne: "strVal (u_applicationLink r) \<noteq> []"
    using linked by (cases "u_applicationLink r") auto
  have v3: "validatePath ''applicationLink'' (applicationLinkPath SecondRevision)
      (setPath (applicationLinkPath SecondRevision) (orElse (u_applicationLink r) [])) = []"
    unfolding sp using linked ne by (simp add: validatePath_def plainPath_def)
  from updatePost_accepted [OF present dates title type descr v3 ident stored, of E]
  obtain d' p' where
    res: "updatePost SecondRevision L E d ident r = (d', Resp 200 (JPost p'))"
    and st: "find (\<lambda>q. p_id q = i) (posts d') = Some p'"
    and l: "p_location p' = orElse (u_location r) ''Remote''"
    and f: "p_durationStart p' = parseDate L (u_durationStart r)"
      "p_durationEnd p' = parseDate L (u_durationEnd r)"
      "p_deadline p' = parseDate L (u_deadline r)"
    and a: "p_applicationLink p'
      = setPath (applicationLinkPath SecondRevision) (orElse (u_applicationLink r) [])"
    by blast
  have c0: "p_applicationLink p' = strVal (u_applicationLink r)"
    using a sp by simp
  have c1: "u_location r = JUndefined \<longrightarrow> p_location p' = ''Remote''"
    by (simp add: l orElse_def)
  have c2: "u_durationStart r = JUndefined \<longrightarrow> p_durationStart p' = None"
    by (simp add: f parseDate_def)
  have c3: "u_durationEnd r = JUndefined \<longrightarrow> p_durationEnd p' = None"
    by (simp add: f parseDate_def)
  have c4: "u_deadline r = JUndefined \<longrightarrow> p_deadline p' = None"
    by (simp add: f parseDate_def)
  from res st c0 c1 c2 c3 c4
  show "\<exists>d' p'. updatePost SecondRevision L E d ident r = (d', Resp 200 (JPost p'))
               \<and> find (\<lambda>q. p_id q = i) (posts d') = Some p'
               \<and> p_applicationLink p' = strVal (u_applicationLink r)
               \<and> (u_location r = JUndefined \<longrightarrow> p_location p' = ''Remote'')
               \<and> (u_durationStart r = JUndefined \<longrightarrow> p_durationStart p' = None)
               \<and> (u_durationEnd r = JUndefined \<longrightarrow> p_durationEnd p' = None)
               \<and> (u_deadline r = JUndefined \<longrightarrow> p_deadline p' = None)"
    by blast
qed

text \<open>
  On the sample store. The update that names only title, type and description: with
  the first revision the post, which was on site with three dates and a link, is stored
  remote, without dates and without a link; with the second revision the update is
  refused. The same update with a link is accepted by the second revision and resets
  the location and the dates.
\<close>

lemma exUpdateLinked_result:
  "updatePost SecondRevision refLib exEnv exDb exPostId exUpdateLinked
     = (exDb\<lparr>posts := [exUpdatedLinked, exDraft]\<rparr>, Resp 200 (JPost exUpdatedLinked))"
  by (simp add: updatePost_def Post_findByIdAndUpdate_def applyUpdate_def Let_def
      exDefs exDefs3 schemaDefs refDefs)

theorem update_full_replace_by_revision_witness:
  "updatePost FirstRevision refLib exEnv exDb exPostId exUpdate
     = (exDb\<lparr>posts := [exUpdated, exDraft]\<rparr>, Resp 200 (JPost exUpdated))
   \<and> p_location exPost = ''Onsite'' \<and> p_location exUpdated = ''Remote''
   \<and> p_durationStart exUpdated = None \<and> p_durationEnd exUpdated = None
   \<and> p_deadline exUpdated = None \<and> p_applicationLink exUpdated = []
   \<and> (\<exists>d' p'. updatePost FirstRevision refLib exEnv exDb exPostId exUpdate
                  = (d', Resp 200 (JPost p'))
         \<and> find (\<lambda>q. p_id q = exPostId) (posts d') = Some p'
         \<and> p_location p' = ''Remote'' \<and> p_durationStart p' = None \<and> p_durationEnd p' = None
         \<and> p_deadline p' = None \<and> p_applicationLink p' = [])
   \<and> updatePost SecondRevision refLib exEnv exDb exPostId exUpdate
        = (exDb, Resp 400 (JValidation [VRequired ''applicationLink'']))
   \<and> updatePost SecondRevision refLib exEnv exDb exPostId exUpdateLinked
        = (exDb\<lparr>posts := [exUpdatedLinked, exDraft]\<rparr>, Resp 200 (JPost exUpdatedLinked))
   \<and> p_location exUpdatedLinked = ''Remote''
   \<and> (\<exists>d' p'. updatePost SecondRevision refLib exEnv exDb exPostId exUpdateLinked
                  = (d', Resp 200 (JPost p'))
         \<and> find (\<lambda>q. p_id q = exPostId) (posts d') = Some p'
         \<and> p_location p' = ''Remote'' \<and> p_durationStart p' = None \<and> p_durationEnd p' = None
         \<and> p_deadline p' = None)"
proof -
  have omitted: "u_location exUpdate = JUndefined" "u_durationStart exUpdate = JUndefined"
    "u_durationEnd exUpdate = JUndefined" "u_deadline exUpdate = JUndefined"
    "u_applicationLink exUpdate = JUndefined"
    by (simp_all add: exDefs)
  have omittedL: "u_location exUpdateLinked = JUndefined"
    "u_durationStart exUpdateLinked = JUndefined"
    "u_durationEnd exUpdateLinked = JUndefined" "u_deadline exUpdateLinked = JUndefined"
    by (simp_all add: exDefs exDefs3)
  have linked: "truthy (u_applicationLink exUpdateLinked)
      \<and> httpUrl (strVal (u_applicationLink exUpdateLinked))"
    by (simp add: exDefs exDefs3 httpUrl_def)
  have t1: "(\<exists>d' p'. updatePost FirstRevision refLib exEnv exDb exPostId exUpdate
                  = (d', Resp 200 (JPost p'))
            \<and> find (\<lambda>q. p_id q = exPostId) (posts d') = Some p'
            \<and> (u_location exUpdate = JUndefined \<longrightarrow> p_location p' = ''Remote'')
            \<and> (u_durationStart exUpdate = JUndefined \<longrightarrow> p_durationStart p' = None)
            \<and> (u_durationEnd exUpdate = JUndefined \<longrightarrow> p_durationEnd p' = None)
            \<and> (u_deadline exUpdate = JUndefined \<longrightarrow> p_deadline p' = None)
            \<and> (u_applicationLink exUpdate = JUndefined \<longrightarrow> p_applicationLink p' = []))
       \<and> (u_applicationLink exUpdate = JUndefined \<longrightarrow>
            updatePost SecondRevision refLib exEnv exDb exPostId exUpdate
              = (exDb, Resp 400 (JValidation [VRequired ''applicationLink''])))
       \<and> (truthy (u_applicationLink exUpdate) \<and> httpUrl (strVal (u_applicationLink exUpdate)) \<longrightarrow>
            (\<exists>d' p'. updatePost SecondRevision refLib exEnv exDb exPostId exUpdate
                  = (d', Resp 200 (JPost p'))
               \<and> find (\<lambda>q. p_id q = exPostId) (posts d') = Some p'
               \<and> p_applicationLink p' = strVal (u_applicationLink exUpdate)
               \<and> (u_location exUpdate = JUndefined \<longrightarrow> p_location p' = ''Remote'')
               \<and> (u_durationStart exUpdate = JUndefined \<longrightarrow> p_durationStart p' = None)
               \<and> (u_durationEnd exUpdate = JUndefined \<longrightarrow> p_durationEnd p' = None)
               \<and> (u_deadline exUpdate = JUndefined \<longrightarrow> p_deadline p' = None)))"
    by (rule update_full_replace_by_revision [where p = exPost])
       (simp_all add: exDefs schemaDefs refDefs)
  have t2: "(\<exists>d' p'. updatePost FirstRevision refLib exEnv exDb exPostId exUpdateLinked
                  = (d', Resp 200 (JPost p'))
            \<and> find (\<lambda>q. p_id q = exPostId) (posts d') = Some p'
            \<and> (u_location exUpdateLinked = JUndefined \<longrightarrow> p_location p' = ''Remote'')
            \<and> (u_durationStart exUpdateLinked = JUndefined \<longrightarrow> p_durationStart p' = None)
            \<and> (u_durationEnd exUpdateLinked = JUndefined \<longrightarrow> p_durationEnd p' = None)
            \<and> (u_deadline exUpdateLinked = JUndefined \<longrightarrow> p_deadline p' = None)
            \<and> (u_applicationLink exUpdateLinked = JUndefined \<longrightarrow> p_applicationLink p' = []))
       \<and> (u_applicationLink exUpdateLinked = JUndefined \<longrightarrow>
            updatePost SecondRevision refLib exEnv exDb exPostId exUpdateLinked
              = (exDb, Resp 400 (JValidation [VRequired ''applicationLink''])))
       \<and> (truthy (u_applicationLink exUpdateLinked)
             \<and> httpUrl (strVal (u_applicationLink exUpdateLinked)) \<longrightarrow>
            (\<exists>d' p'. updatePost SecondRevision refLib exEnv exDb exPostId exUpdateLinked
                  = (d', Resp 200 (JPost p'))
               \<and> find (\<lambda>q. p_id q = exPostId) (posts d') = Some p'
               \<and> p_applicationLink p' = strVal (u_applicationLink exUpdateLinked)
               \<and> (u_location exUpdateLinked = JUndefined \<longrightarrow> p_location p' = ''Remote'')
               \<and> (u_durationStart exUpdateLinked = JUndefined \<longrightarrow> p_durationStart p' = None)
               \<and> (u_durationEnd exUpdateLinked = JUndefined \<longrightarrow> p_durationEnd p' = None)
               \<and> (u_deadline exUpdateLinked = JUndefined \<longrightarrow> p_deadline p' = None)))"
    by (rule update_full_replace_by_revision [where p = exPost])
       (simp_all add: exDefs exDefs3 schemaDefs refDefs)
  have a: "\<exists>d' p'. updatePost FirstRevision refLib exEnv exDb exPostId exUpdate
                  = (d', Resp 200 (JPost p'))
         \<and> find (\<lambda>q. p_id q = exPostId) (posts d') = Some p'
         \<and> p_location p' = ''Remote'' \<and> p_durationStart p' = None \<and> p_durationEnd p' = None
         \<and> p_deadline p' = None \<and> p_applicationLink p' = []"
    using t1 omitted by blast
  have b: "updatePost SecondRevision refLib exEnv exDb exPostId exUpdate
        = (exDb, Resp 400 (JValidation [VRequired ''applicationLink'']))"
    using t1 omitted by blast
  have c: "\<exists>d' p'. updatePost SecondRevision refLib exEnv exDb exPostId exUpdateLinked
                  = (d', Resp 200 (JPost p'))
         \<and> find (\<lambda>q. p_id q = exPostId) (posts d') = Some p'
         \<and> p_location p' = ''Remote'' \<and> p_durationStart p' = None \<and> p_durationEnd p' = None
         \<and> p_deadline p' = None"
    using t2 omittedL linked by blast
  have n: "p_location exPost = ''Onsite''" "p_location exUpdated = ''Remote''"
    "p_durationStart exUpdated = None" "p_durationEnd exUpdated = None"
    "p_deadline exUpdated = None" "p_applicationLink exUpdated = []"
    "p_location exUpdatedLinked = ''Remote''"
    by (simp_all add: exDefs exDefs3)
  from exUpdate_result n(1-6) a b exUpdateLinked_result n(7) c
  show ?thesis by (intro conjI)
qed

text \<open>
  Claim C4 as stated fails on the second revision of the schema: the update of the
  sample post that omits location and \<open>applicationLink\<close> is refused, the store is left
  as it was, and the stored post is still on site with its link.
\<close>

theorem update_omitting_link_second_revision:
  "u_location exUpdate = JUndefined \<and> u_applicationLink exUpdate = JUndefined
   \<and> updatePost SecondRevision refLib exEnv exDb exPostId exUpdate
        = (exDb, Resp 400 (JValidation [VRequired ''applicationLink'']))
   \<and> posts exDb = [exPost, exDraft] \<and> p_id exPost = exPostId
   \<and> p_location exPost = ''Onsite''
   \<and> p_applicationLink exPost = ''https://acme.example/apply''"
  by (simp add: updatePost_def Post_findByIdAndUpdate_def Let_def exDefs schemaDefs refDefs)

text \<open>
  Claim C5. After a successful update the post stored under the identifier has the
  status, the \<open>orgId\<close> and the \<open>orgName\<close> it had before, and so has every other post
  of the collection.
\<close>

theorem update_keeps_status_and_org:
  assumes "updatePost sch L E d ident r = (d', Resp 200 b)"
  shows "\<exists>i p p'. castObjectId L ident = Some i
      \<and> find (\<lambda>q. p_id q = i) (posts d) = Some p
      \<and> find (\<lambda>q. p_id q = i) (posts d') = Some p'
      \<and> b = JPost p'
      \<and> p_status p' = p_status p \<and> p_orgId p' = p_orgId p \<and> p_orgName p' = p_orgName p
      \<and> map p_status (posts d') = map p_status (posts d)
      \<and> map p_orgId (posts d') = map p_orgId (posts d)
      \<and> map p_orgName (posts d') = map p_orgName (posts d)"
proof -
  from updatePost_200 [OF assms] obtain i p p' where
    i: "castObjectId L ident = Some i"
    and p: "find (\<lambda>q. p_id q = i) (posts d) = Some p"
    and p': "p' = p\<lparr>p_title := setPath titlePath (strVal (u_title r)),
               p_type := setPath typePath (strVal (u_type r)),
               p_description := setPath descriptionPath (strVal (u_description r)),
               p_location := setPath locationPath (orElse (u_location r) ''Remote''),
               p_durationStart := parseDate L (u_durationStart r),
               p_durationEnd := parseDate L (u_durationEnd r),
               p_deadline := parseDate L (u_deadline r),
               p_applicationLink := setPath (applicationLinkPath sch) (orElse (u_applicationLink r) []),
               p_updatedAt := e_now E\<rparr>"
    and d': "d' = d\<lparr>posts := replaceFirst (\<lambda>q. p_id q = i) p' (posts d)\<rparr>"
    and b: "b = JPost p'"
    by blast
  have "p_id p' = p_id p" by (simp add: p')
  then have stored: "find (\<lambda>q. p_id q = i) (posts d') = Some p'"
    unfolding d' by (rule updatePost_stored [OF p])
  have same: "p_status p' = p_status p" "p_orgId p' = p_orgId p" "p_orgName p' = p_orgName p"
    by (simp_all add: p')
  have m1: "map p_status (posts d') = map p_status (posts d)"
    unfolding d' using map_replaceFirst [OF p same(1)] by simp
  have m2: "map p_orgId (posts d') = map p_orgId (posts d)"
    unfolding d' using map_replaceFirst [OF p same(2)] by simp
  have m3: "map p_orgName (posts d') = map p_orgName (posts d)"
    unfolding d' using map_replaceFirst [OF p same(3)] by simp
  from i p stored b same m1 m2 m3 show ?thesis by blast
qed

theorem update_keeps_status_and_org_witness:
  "updatePost FirstRevision refLib exEnv exDb exPostId exUpdate
     = (exDb\<lparr>posts := [exUpdated, exDraft]\<rparr>, Resp 200 (JPost exUpdated))
   \<and> (\<exists>i p p'. castObjectId refLib exPostId = Some i
      \<and> find (\<lambda>q. p_id q = i) (posts exDb) = Some p
      \<and> find (\<lambda>q. p_id q = i) (posts (exDb\<lparr>posts := [exUpdated, exDraft]\<rparr>)) = Some p'
      \<and> JPost exUpdated = JPost p'
      \<and> p_status p' = p_status p \<and> p_orgId p' = p_orgId p \<and> p_orgName p' = p_orgName p
      \<and> map p_status (posts (exDb\<lparr>posts := [exUpdated, exDraft]\<rparr>)) = map p_status (posts exDb)
      \<and> map p_orgId (posts (exDb\<lparr>posts := [exUpdated, exDraft]\<rparr>)) = map p_orgId (posts exDb)
      \<and> map p_orgName (posts (exDb\<lparr>posts := [exUpdated, exDraft]\<rparr>)) = map p_orgName (posts exDb))"
  by (rule conjI [OF exUpdate_result update_keeps_status_and_org [OF exUpdate_result]])

section \<open>Dates that do not parse\<close>

lemma startAfterEnd_None_right: "startAfterEnd x None = False"
  by (cases x) simp_all

text \<open>What the create handler does with a request that passes every check.\<close>

lemma createPost_accepted:
  assumes present: "truthy (c_orgId r)" "truthy (c_orgName r)" "truthy (c_title r)"
      "truthy (c_type r)" "truthy (c_description r)"
    and status: "c_status r = JUndefined \<or> c_status r = JStr ''draft'' \<or> c_status r = JStr ''active''"
    and orgId: "isValid L (c_orgId r)"
    and dates: "\<not> startAfterEnd (parseDate L (c_durationStart r)) (parseDate L (c_durationEnd r))"
    and title: "validatePath ''title'' titlePath (setPath titlePath (strVal (c_title r))) = []"
    and type: "validatePath ''type'' typePath (setPath typePath (strVal (c_type r))) = []"
    and descr: "validatePath ''description'' descriptionPath
                  (setPath descriptionPath (strVal (c_description r))) = []"
    and link: "validatePath ''applicationLink'' (applicationLinkPath sch)
                  (setPath (applicationLinkPath sch) (orElse (c_applicationLink r) [])) = []"
    and fresh: "e_newId E \<notin> set (map p_id (posts d))"
  shows "\<exists>p. createPost sch L E d r = (d\<lparr>posts := posts d @ [p]\<rparr>, Resp 201 (JPost p))
           \<and> p_durationStart p = parseDate L (c_durationStart r)
           \<and> p_durationEnd p = parseDate L (c_durationEnd r)
           \<and> p_deadline p = parseDate L (c_deadline r)"
proof -
  obtain s where s: "c_orgId r = JStr s" "s \<noteq> []"
    using present(1) by (cases "c_orgId r") auto
  obtain oi where oi: "castObjectId L s = Some oi"
    using orgId s by auto
  obtain n where n: "c_orgName r = JStr n" "n \<noteq> []"
    using present(2) by (cases "c_orgName r") auto
  have st: "validatePath ''status'' statusPath
      (setPath statusPath (strVal (if c_status r = JUndefined then JStr ''draft'' else c_status r))) = []"
    using status by (auto simp: validatePath_def statusPath_def plainPath_def setPath_def)
  have stat: "\<not> ((if c_status r = JUndefined then JStr ''draft'' else c_status r) \<noteq> JStr ''draft''
       \<and> (if c_status r = JUndefined then JStr ''draft'' else c_status r) \<noteq> JStr ''active'')"
    using status by auto
  have on: "validatePath ''orgName'' orgNamePath (setPath orgNamePath (strVal (c_orgName r))) = []"
    using n by (simp add: validatePath_def orgNamePath_def plainPath_def setPath_def)
  have loc: "validatePath ''location'' locationPath x = []" for x
    by (simp add: validatePath_def locationPath_def plainPath_def)
  show ?thesis
    using present stat orgId dates s oi fresh
    by (simp add: createPost_def Let_def Post_save_def Post_validate_def on title type
        descr link loc st del: applicationLinkPath.simps)
qed

text \<open>
  A request with a date string that does not parse has the result, response and store,
  of the request with that field absent, whatever else the request holds.
\<close>

lemma unparseable_date_same_result:
  assumes "dateParse L s = None"
  shows "createPost sch L E d (r\<lparr>c_durationStart := JStr s\<rparr>)
           = createPost sch L E d (r\<lparr>c_durationStart := JUndefined\<rparr>)
    \<and> createPost sch L E d (r\<lparr>c_durationEnd := JStr s\<rparr>)
           = createPost sch L E d (r\<lparr>c_durationEnd := JUndefined\<rparr>)
    \<and> createPost sch L E d (r\<lparr>c_deadline := JStr s\<rparr>)
           = createPost sch L E d (r\<lparr>c_deadline := JUndefined\<rparr>)
    \<and> updatePost sch L E d ident (u\<lparr>u_durationStart := JStr s\<rparr>)
           = updatePost sch L E d ident (u\<lparr>u_durationStart := JUndefined\<rparr>)
    \<and> updatePost sch L E d ident (u\<lparr>u_durationEnd := JStr s\<rparr>)
           = updatePost sch L E d ident (u\<lparr>u_durationEnd := JUndefined\<rparr>)
    \<and> updatePost sch L E d ident (u\<lparr>u_deadline := JStr s\<rparr>)
           = updatePost sch L E d ident (u\<lparr>u_deadline := JUndefined\<rparr>)"
  using parseDate_unparseable [OF assms] parseDate_absent [of L]
  by (simp add: createPost_def updatePost_def Let_def
      split: option.split sum.split dberr.split prod.split)

text \<open>
  A create request that passes every other check is accepted with the unparseable date
  in any of the three fields, and the stored post has no date there.
\<close>

lemma unparseable_date_create_accepted:
  assumes bad: "dateParse L s = None"
    and valid: "truthy (c_orgId r) \<and> truthy (c_orgName r) \<and> truthy (c_title r)
      \<and> truthy (c_type r) \<and> truthy (c_description r)
      \<and> (c_status r = JUndefined \<or> c_status r = JStr ''draft'' \<or> c_status r = JStr ''active'')
      \<and> isValid L (c_orgId r)
      \<and> \<not> startAfterEnd (parseDate L (c_durationStart r)) (parseDate L (c_durationEnd r))
      \<and> validatePath ''title'' titlePath (setPath titlePath (strVal (c_title r))) = []
      \<and> validatePath ''type'' typePath (setPath typePath (strVal (c_type r))) = []
      \<and> validatePath ''description'' descriptionPath
            (setPath descriptionPath (strVal (c_description r))) = []
      \<and> validatePath ''applicationLink'' (applicationLinkPath sch)
            (setPath (applicationLinkPath sch) (orElse (c_applicationLink r) [])) = []
      \<and> e_newId E \<notin> set (map p_id (posts d))"
  shows "(\<exists>p. createPost sch L E d (r\<lparr>c_durationStart := JStr s\<rparr>)
                = (d\<lparr>posts := posts d @ [p]\<rparr>, Resp 201 (JPost p))
              \<and> p_durationStart p = None)
       \<and> (\<exists>p. createPost sch L E d (r\<lparr>c_durationEnd := JStr s\<rparr>)
                = (d\<lparr>posts := posts d @ [p]\<rparr>, Resp 201 (JPost p))
              \<and> p_durationEnd p = None)
       \<and> (\<exists>p. createPost sch L E d (r\<lparr>c_deadline := JStr s\<rparr>)
                = (d\<lparr>posts := posts d @ [p]\<rparr>, Resp 201 (JPost p))
              \<and> p_deadline p = None)"
proof -
  note n = parseDate_unparseable [OF bad]
  have a: "\<exists>p. createPost sch L E d (r\<lparr>c_durationStart := JStr s\<rparr>)
                = (d\<lparr>posts := posts d @ [p]\<rparr>, Resp 201 (JPost p))
              \<and> p_durationStart p = None"
  proof -
    have "\<exists>p. createPost sch L E d (r\<lparr>c_durationStart := JStr s\<rparr>)
                = (d\<lparr>posts := posts d @ [p]\<rparr>, Resp 201 (JPost p))
           \<and> p_durationStart p = parseDate L (c_durationStart (r\<lparr>c_durationStart := JStr s\<rparr>))
           \<and> p_durationEnd p = parseDate L (c_durationEnd (r\<lparr>c_durationStart := JStr s\<rparr>))
           \<and> p_deadline p = parseDate L (c_deadline (r\<lparr>c_durationStart := JStr s\<rparr>))"
      by (rule createPost_accepted)
         (use valid in \<open>simp_all add: n del: applicationLinkPath.simps\<close>)
    then show ?thesis by (auto simp: n)
  qed
  have b: "\<exists>p. createPost sch L E d (r\<lparr>c_durationEnd := JStr s\<rparr>)
                = (d\<lparr>posts := posts d @ [p]\<rparr>, Resp 201 (JPost p))
              \<and> p_durationEnd p = None"
  proof -
    have "\<exists>p. createPost sch L E d (r\<lparr>c_durationEnd := JStr s\<rparr>)
                = (d\<lparr>posts := posts d @ [p]\<rparr>, Resp 201 (JPost p))
           \<and> p_durationStart p = parseDate L (c_durationStart (r\<lparr>c_durationEnd := JStr s\<rparr>))
           \<and> p_durationEnd p = parseDate L (c_durationEnd (r\<lparr>c_durationEnd := JStr s\<rparr>))
           \<and> p_deadline p = parseDate L (c_deadline (r\<lparr>c_durationEnd := JStr s\<rparr>))"
      by (rule createPost_accepted)
         (use valid in \<open>simp_all add: n startAfterEnd_None_right del: applicationLinkPath.simps\<close>)
    then show ?thesis by (auto simp: n)
  qed
  have c: "\<exists>p. createPost sch L E d (r\<lparr>c_deadline := JStr s\<rparr>)
                = (d\<lparr>posts := posts d @ [p]\<rparr>, Resp 201 (JPost p))
              \<and> p_deadline p = None"
  proof -
    have "\<exists>p. createPost sch L E d (r\<lparr>c_deadline := JStr s\<rparr>)
                = (d\<lparr>posts := posts d @ [p]\<rparr>, Resp 201 (JPost p))
           \<and> p_durationStart p = parseDate L (c_durationStart (r\<lparr>c_deadline := JStr s\<rparr>))
           \<and> p_durationEnd p = parseDate L (c_durationEnd (r\<lparr>c_deadline := JStr s\<rparr>))
           \<and> p_deadline p = parseDate L (c_deadline (r\<lparr>c_deadline := JStr s\<rparr>))"
      by (rule createPost_accepted)
         (use valid in \<open>simp_all add: n del: applicationLinkPath.simps\<close>)
    then show ?thesis by (auto simp: n)
  qed
  from a b c show ?thesis by (intro conjI)
qed

text \<open>The same for an update of a post that exists.\<close>

lemma unparseable_date_update_accepted:
  assumes bad: "dateParse L s = None"
    and valid: "truthy (u_title u) \<and> truthy (u_type u) \<and> truthy (u_description u)
      \<and> \<not> startAfterEnd (parseDate L (u_durationStart u)) (parseDate L (u_durationEnd u))
      \<and> validatePath ''title'' titlePath (setPath titlePath (strVal (u_title u))) = []
      \<and> validatePath ''type'' typePath (setPath typePath (strVal (u_type u))) = []
      \<and> validatePath ''description'' descriptionPath
            (setPath descriptionPath (strVal (u_description u))) = []
      \<and> validatePath ''applicationLink'' (applicationLinkPath sch)
            (setPath (applicationLinkPath sch) (orElse (u_applicationLink u) [])) = []
      \<and> castObjectId L ident = Some i
      \<and> find (\<lambda>q. p_id q = i) (posts d) = Some pold"
  shows "(\<exists>d' p'. updatePost sch L E d ident (u\<lparr>u_durationStart := JStr s\<rparr>)
                = (d', Resp 200 (JPost p'))
              \<and> find (\<lambda>q. p_id q = i) (posts d') = Some p' \<and> p_durationStart p' = None)
       \<and> (\<exists>d' p'. updatePost sch L E d ident (u\<lparr>u_durationEnd := JStr s\<rparr>)
                = (d', Resp 200 (JPost p'))
              \<and> find (\<lambda>q. p_id q = i) (posts d') = Some p' \<and> p_durationEnd p' = None)
       \<and> (\<exists>d' p'. updatePost sch L E d ident (u\<lparr>u_deadline := JStr s\<rparr>)
                = (d', Resp 200 (JPost p'))
              \<and> find (\<lambda>q. p_id q = i) (posts d') = Some p' \<and> p_deadline p' = None)"
proof -
  note n = parseDate_unparseable [OF bad]
  have a: "\<exists>d' p'. updatePost sch L E d ident (u\<lparr>u_durationStart := JStr s\<rparr>)
                = (d', Resp 200 (JPost p'))
              \<and> find (\<lambda>q. p_id q = i) (posts d') = Some p' \<and> p_durationStart p' = None"
  proof -
    have "\<exists>d' p'. updatePost sch L E d ident (u\<lparr>u_durationStart := JStr s\<rparr>)
                = (d', Resp 200 (JPost p'))
           \<and> find (\<lambda>q. p_id q = i) (posts d') = Some p'
           \<and> p_location p' = orElse (u_location (u\<lparr>u_durationStart := JStr s\<rparr>)) ''Remote''
           \<and> p_durationStart p' = parseDate L (u_durationStart (u\<lparr>u_durationStart := JStr s\<rparr>))
           \<and> p_durationEnd p' = parseDate L (u_durationEnd (u\<lparr>u_durationStart := JStr s\<rparr>))
           \<and> p_deadline p' = parseDate L (u_deadline (u\<lparr>u_durationStart := JStr s\<rparr>))
           \<and> p_applicationLink p'
               = setPath (applicationLinkPath sch)
                   (orElse (u_applicationLink (u\<lparr>u_durationStart := JStr s\<rparr>)) [])"
      by (rule updatePost_accepted [where p = pold])
         (use valid in \<open>simp_all add: n del: applicationLinkPath.simps\<close>)
    then show ?thesis by (auto simp: n)
  qed
  have b: "\<exists>d' p'. updatePost sch L E d ident (u\<lparr>u_durationEnd := JStr s\<rparr>)
                = (d', Resp 200 (JPost p'))
              \<and> find (\<lambda>q. p_id q = i) (posts d') = Some p' \<and> p_durationEnd p' = None"
  proof -
    have "\<exists>d' p'. updatePost sch L E d ident (u\<lparr>u_durationEnd := JStr s\<rparr>)
                = (d', Resp 200 (JPost p'))
           \<and> find (\<lambda>q. p_id q = i) (posts d') = Some p'
           \<and> p_location p' = orElse (u_location (u\<lparr>u_durationEnd := JStr s\<rparr>)) ''Remote''
           \<and> p_durationStart p' = parseDate L (u_durationStart (u\<lparr>u_durationEnd := JStr s\<rparr>))
           \<and> p_durationEnd p' = parseDate L (u_durationEnd (u\<lparr>u_durationEnd := JStr s\<rparr>))
           \<and> p_deadline p' = parseDate L (u_deadline (u\<lparr>u_durationEnd := JStr s\<rparr>))
           \<and> p_applicationLink p'
               = setPath (applicationLinkPath sch)
                   (orElse (u_applicationLink (u\<lparr>u_durationEnd := JStr s\<rparr>)) [])"
      by (rule updatePost_accepted [where p = pold])
         (use valid in \<open>simp_all add: n startAfterEnd_None_right del: applicationLinkPath.simps\<close>)
    then show ?thesis by (auto simp: n)
  qed
  have c: "\<exists>d' p'. updatePost sch L E d ident (u\<lparr>u_deadline := JStr s\<rparr>)
                = (d', Resp 200 (JPost p'))
              \<and> find (\<lambda>q. p_id q = i) (posts d') = Some p' \<and> p_deadline p' = None"
  proof -
    have "\<exists>d' p'. updatePost sch L E d ident (u\<lparr>u_deadline := JStr s\<rparr>)
                = (d', Resp 200 (JPost p'))
           \<and> find (\<lambda>q. p_id q = i) (posts d') = Some p'
           \<and> p_location p' = orElse (u_location (u\<lparr>u_deadline := JStr s\<rparr>)) ''Remote''
           \<and> p_durationStart p' = parseDate L (u_durationStart (u\<lparr>u_deadline := JStr s\<rparr>))
           \<and> p_durationEnd p' = parseDate L (u_durationEnd (u\<lparr>u_deadline := JStr s\<rparr>))
           \<and> p_deadline p' = parseDate L (u_deadline (u\<lparr>u_deadline := JStr s\<rparr>))
           \<and> p_applicationLink p'
               = setPath (applicationLinkPath sch)
                   (orElse (u_applicationLink (u\<lparr>u_deadline := JStr s\<rparr>)) [])"
      by (rule updatePost_accepted [where p = pold])
         (use valid in \<open>simp_all add: n del: applicationLinkPath.simps\<close>)
    then show ?thesis by (auto simp: n)
  qed
  from a b c show ?thesis by (intro conjI)
qed

text \<open>
  Claim C6. Let a string not parse as a date. A create or update request that carries
  it as \<open>durationStart\<close>, \<open>durationEnd\<close> or \<open>deadline\<close> has the same result, response
  and store, as the request with that field absent, so it fails only where that request
  fails. A create request that passes every other check of the handler and the schema
  is answered 201 and the post it stores has no date in that field; an update request
  that passes every other check, for a post that exists, is answered 200 and the post
  stored under the identifier has no date in that field.
\<close>

theorem unparseable_date_as_absent:
  assumes bad: "dateParse L s = None"
  shows "(createPost sch L E d (r\<lparr>c_durationStart := JStr s\<rparr>)
           = createPost sch L E d (r\<lparr>c_durationStart := JUndefined\<rparr>)
    \<and> createPost sch L E d (r\<lparr>c_durationEnd := JStr s\<rparr>)
           = createPost sch L E d (r\<lparr>c_durationEnd := JUndefined\<rparr>)
    \<and> createPost sch L E d (r\<lparr>c_deadline := JStr s\<rparr>)
           = createPost sch L E d (r\<lparr>c_deadline := JUndefined\<rparr>)
    \<and> updatePost sch L E d ident (u\<lparr>u_durationStart := JStr s\<rparr>)
           = updatePost sch L E d ident (u\<lparr>u_durationStart := JUndefined\<rparr>)
    \<and> updatePost sch L E d ident (u\<lparr>u_durationEnd := JStr s\<rparr>)
           = updatePost sch L E d ident (u\<lparr>u_durationEnd := JUndefined\<rparr>)
    \<and> updatePost sch L E d ident (u\<lparr>u_deadline := JStr s\<rparr>)
           = updatePost sch L E d ident (u\<lparr>u_deadline := JUndefined\<rparr>))
   \<and> (truthy (c_orgId r) \<and> truthy (c_orgName r) \<and> truthy (c_title r)
      \<and> truthy (c_type r) \<and> truthy (c_description r)
      \<and> (c_status r = JUndefined \<or> c_status r = JStr ''draft'' \<or> c_status r = JStr ''active'')
      \<and> isValid L (c_orgId r)
      \<and> \<not> startAfterEnd (parseDate L (c_durationStart r)) (parseDate L (c_durationEnd r))
      \<and> validatePath ''title'' titlePath (setPath titlePath (strVal (c_title r))) = []
      \<and> validatePath ''type'' typePath (setPath typePath (strVal (c_type r))) = []
      \<and> validatePath ''description'' descriptionPath
            (setPath descriptionPath (strVal (c_description r))) = []
      \<and> validatePath ''applicationLink'' (applicationLinkPath sch)
            (setPath (applicationLinkPath sch) (orElse (c_applicationLink r) [])) = []
      \<and> e_newId E \<notin> set (map p_id (posts d))
     \<longrightarrow>
       (\<exists>p. createPost sch L E d (r\<lparr>c_durationStart := JStr s\<rparr>)
                = (d\<lparr>posts := posts d @ [p]\<rparr>, Resp 201 (JPost p))
              \<and> p_durationStart p = None)
       \<and> (\<exists>p. createPost sch L E d (r\<lparr>c_durationEnd := JStr s\<rparr>)
                = (d\<lparr>posts := posts d @ [p]\<rparr>, Resp 201 (JPost p))
              \<and> p_durationEnd p = None)
       \<and> (\<exists>p. createPost sch L E d (r\<lparr>c_deadline := JStr s\<rparr>)
                = (d\<lparr>posts := posts d @ [p]\<rparr>, Resp 201 (JPost p))
              \<and> p_deadline p = None))
   \<and> (truthy (u_title u) \<and> truthy (u_type u) \<and> truthy (u_description u)
      \<and> \<not> startAfterEnd (parseDate L (u_durationStart u)) (parseDate L (u_durationEnd u))
      \<and> validatePath ''title'' titlePath (setPath titlePath (strVal (u_title u))) = []
      \<and> validatePath ''type'' typePath (setPath typePath (strVal (u_type u))) = []
      \<and> validatePath ''description'' descriptionPath
            (setPath descriptionPath (strVal (u_description u))) = []
      \<and> validatePath ''applicationLink'' (applicationLinkPath sch)
            (setPath (applicationLinkPath sch) (orElse (u_applicationLink u) [])) = []
      \<and> castObjectId L ident = Some i
      \<and> find (\<lambda>q. p_id q = i) (posts d) = Some pold
     \<longrightarrow>
       (\<exists>d' p'. updatePost sch L E d ident (u\<lparr>u_durationStart := JStr s\<rparr>)
                = (d', Resp 200 (JPost p'))
              \<and> find (\<lambda>q. p_id q = i) (posts d') = Some p' \<and> p_durationStart p' = None)
       \<and> (\<exists>d' p'. updatePost sch L E d ident (u\<lparr>u_durationEnd := JStr s\<rparr>)
                = (d', Resp 200 (JPost p'))
              \<and> find (\<lambda>q. p_id q = i) (posts d') = Some p' \<and> p_durationEnd p' = None)
       \<and> (\<exists>d' p'. updatePost sch L E d ident (u\<lparr>u_deadline := JStr s\<rparr>)
                = (d', Resp 200 (JPost p'))
              \<and> find (\<lambda>q. p_id q = i) (posts d') = Some p' \<and> p_deadline p' = None))"
  by (rule conjI, rule unparseable_date_same_result [OF bad],
      rule conjI, rule impI, erule unparseable_date_create_accepted [OF bad],
      rule impI, erule unparseable_date_update_accepted [OF bad])

text \<open>
  On the sample store, with the string "soon": the example create request is accepted
  and stores the post without a start date; the update of the sample post, which had a
  deadline, is accepted and stores it without one.
\<close>

lemma exCreate_soon_result:
  "createPost FirstRevision refLib exEnv exDb (exCreate\<lparr>c_durationStart := JStr ''soon''\<rparr>)
     = (exDb\<lparr>posts := [exPost, exDraft, exCreated]\<rparr>, Resp 201 (JPost exCreated))"
  by (simp add: createPost_def Let_def Post_save_def Post_validate_def exDefs schemaDefs refDefs)

lemma exUpdate_soon_result:
  "updatePost FirstRevision refLib exEnv exDb exPostId (exUpdate\<lparr>u_deadline := JStr ''soon''\<rparr>)
     = (exDb\<lparr>posts := [exUpdated, exDraft]\<rparr>, Resp 200 (JPost exUpdated))"
  by (simp add: updatePost_def Post_findByIdAndUpdate_def applyUpdate_def Let_def
      exDefs schemaDefs refDefs)

theorem unparseable_date_as_absent_witness:
  "dateParse refLib ''soon'' = None
   \<and> createPost FirstRevision refLib exEnv exDb (exCreate\<lparr>c_durationStart := JStr ''soon''\<rparr>)
       = (exDb\<lparr>posts := [exPost, exDraft, exCreated]\<rparr>, Resp 201 (JPost exCreated))
   \<and> p_durationStart exCreated = None
   \<and> createPost FirstRevision refLib exEnv exDb (exCreate\<lparr>c_durationStart := JStr ''soon''\<rparr>)
       = createPost FirstRevision refLib exEnv exDb (exCreate\<lparr>c_durationStart := JUndefined\<rparr>)
   \<and> (\<exists>p. createPost FirstRevision refLib exEnv exDb (exCreate\<lparr>c_durationStart := JStr ''soon''\<rparr>)
            = (exDb\<lparr>posts := posts exDb @ [p]\<rparr>, Resp 201 (JPost p))
          \<and> p_durationStart p = None)
   \<and> updatePost FirstRevision refLib exEnv exDb exPostId (exUpdate\<lparr>u_deadline := JStr ''soon''\<rparr>)
       = (exDb\<lparr>posts := [exUpdated, exDraft]\<rparr>, Resp 200 (JPost exUpdated))
   \<and> p_deadline exPost = Some 1704067200000
   \<and> p_deadline exUpdated = None
   \<and> updatePost FirstRevision refLib exEnv exDb exPostId (exUpdate\<lparr>u_deadline := JStr ''soon''\<rparr>)
       = updatePost FirstRevision refLib exEnv exDb exPostId (exUpdate\<lparr>u_deadline := JUndefined\<rparr>)
   \<and> (\<exists>d' p'. updatePost FirstRevision refLib exEnv exDb exPostId (exUpdate\<lparr>u_deadline := JStr ''soon''\<rparr>)
            = (d', Resp 200 (JPost p'))
          \<and> find (\<lambda>q. p_id q = exPostId) (posts d') = Some p' \<and> p_deadline p' = None)"
proof -
  have h: "dateParse refLib ''soon'' = None"
    by (simp add: refDefs)
  note t = unparseable_date_as_absent
    [where sch = FirstRevision and E = exEnv and d = exDb and r = exCreate
       and ident = exPostId and u = exUpdate and i = exPostId and pold = exPost, OF h]
  have vc: "truthy (c_orgId exCreate) \<and> truthy (c_orgName exCreate) \<and> truthy (c_title exCreate)
      \<and> truthy (c_type exCreate) \<and> truthy (c_description exCreate)
      \<and> (c_status exCreate = JUndefined \<or> c_status exCreate = JStr ''draft''
           \<or> c_status exCreate = JStr ''active'')
      \<and> isValid refLib (c_orgId exCreate)
      \<and> \<not> startAfterEnd (parseDate refLib (c_durationStart exCreate))
            (parseDate refLib (c_durationEnd exCreate))
      \<and> validatePath ''title'' titlePath (setPath titlePath (strVal (c_title exCreate))) = []
      \<and> validatePath ''type'' typePath (setPath typePath (strVal (c_type exCreate))) = []
      \<and> validatePath ''description'' descriptionPath
            (setPath descriptionPath (strVal (c_description exCreate))) = []
      \<and> validatePath ''applicationLink'' (applicationLinkPath FirstRevision)
            (setPath (applicationLinkPath FirstRevision) (orElse (c_applicationLink exCreate) [])) = []
      \<and> e_newId exEnv \<notin> set (map p_id (posts exDb))"
    by (simp add: exDefs schemaDefs refDefs)
  have vu: "truthy (u_title exUpdate) \<and> truthy (u_type exUpdate) \<and> truthy (u_description exUpdate)
      \<and> \<not> startAfterEnd (parseDate refLib (u_durationStart exUpdate))
            (parseDate refLib (u_durationEnd exUpdate))
      \<and> validatePath ''title'' titlePath (setPath titlePath (strVal (u_title exUpdate))) = []
      \<and> validatePath ''type'' typePath (setPath typePath (strVal (u_type exUpdate))) = []
      \<and> validatePath ''description'' descriptionPath
            (setPath descriptionPath (strVal (u_description exUpdate))) = []
      \<and> validatePath ''applicationLink'' (applicationLinkPath FirstRevision)
            (setPath (applicationLinkPath FirstRevision) (orElse (u_applicationLink exUpdate) [])) = []
      \<and> castObjectId refLib exPostId = Some exPostId
      \<and> find (\<lambda>q. p_id q = exPostId) (posts exDb) = Some exPost"
    by (simp add: exDefs schemaDefs refDefs)
  have c1: "createPost FirstRevision refLib exEnv exDb (exCreate\<lparr>c_durationStart := JStr ''soon''\<rparr>)
       = createPost FirstRevision refLib exEnv exDb (exCreate\<lparr>c_durationStart := JUndefined\<rparr>)"
    using t by blast
  have c2: "\<exists>p. createPost FirstRevision refLib exEnv exDb (exCreate\<lparr>c_durationStart := JStr ''soon''\<rparr>)
            = (exDb\<lparr>posts := posts exDb @ [p]\<rparr>, Resp 201 (JPost p))
          \<and> p_durationStart p = None"
    using t vc by blast
  have u1: "updatePost FirstRevision refLib exEnv exDb exPostId (exUpdate\<lparr>u_deadline := JStr ''soon''\<rparr>)
       = updatePost FirstRevision refLib exEnv exDb exPostId (exUpdate\<lparr>u_deadline := JUndefined\<rparr>)"
    using t by blast
  have u2: "\<exists>d' p'. updatePost FirstRevision refLib exEnv exDb exPostId (exUpdate\<lparr>u_deadline := JStr ''soon''\<rparr>)
            = (d', Resp 200 (JPost p'))
          \<and> find (\<lambda>q. p_id q = exPostId) (posts d') = Some p' \<and> p_deadline p' = None"
    using t vu by blast
  have n1: "p_durationStart exCreated = None" by (simp add: exDefs)
  have n2: "p_deadline exPost = Some 1704067200000" by (simp add: exDefs)
  have n3: "p_deadline exUpdated = None" by (simp add: exDefs)
  from h exCreate_soon_result n1 c1 c2 exUpdate_soon_result n2 n3 u1 u2
  show ?thesis by (intro conjI)
qed

section \<open>Listing posts\<close>

text \<open>
  Claim C7. Without an \<open>orgId\<close> the list is answered 200 with exactly the active
  posts, each as it is stored but for the version key, which is removed, newest first.
  With a non-empty \<open>orgId\<close> that is well formed it is answered 200 with exactly the
  posts of that organization as they are stored, whatever their status, newest first.
  (The lists are equal as multisets: the same posts, each as often as stored.)
\<close>

theorem list_posts_modes:
  "(\<exists>ps. listPosts L d JUndefined = Resp 200 (JPosts ps)
        \<and> mset ps = mset (map (\<lambda>p. p\<lparr>p_v := None\<rparr>)
                             (filter (\<lambda>p. p_status p = ''active'') (posts d)))
        \<and> sorted_wrt (\<lambda>a b. p_createdAt b \<le> p_createdAt a) ps
        \<and> (\<forall>p\<in>set ps. p_v p = None \<and> p_status p = ''active''))
   \<and> (s \<noteq> [] \<and> castObjectId L s = Some oi \<longrightarrow>
        (\<exists>ps. listPosts L d (JStr s) = Resp 200 (JPosts ps)
           \<and> mset ps = mset (filter (\<lambda>p. p_orgId p = oi) (posts d))
           \<and> sorted_wrt (\<lambda>a b. p_createdAt b \<le> p_createdAt a) ps))"
proof (intro conjI impI)
  let ?act = "filter (\<lambda>p. p_status p = ''active'') (posts d)"
  let ?ps = "map dropVersion (sortNewestFirst ?act)"
  have dv: "dropVersion = (\<lambda>p. p\<lparr>p_v := None\<rparr>)"
    by (rule ext) (simp add: dropVersion_def)
  have 1: "listPosts L d JUndefined = Resp 200 (JPosts ?ps)"
    by (simp add: listPosts_def)
  have 2: "mset ?ps = mset (map (\<lambda>p. p\<lparr>p_v := None\<rparr>) ?act)"
    by (simp add: mset_sortNewestFirst dv)
  have 3: "sorted_wrt (\<lambda>a b. p_createdAt b \<le> p_createdAt a) ?ps"
    by (rule sorted_dropVersion [OF sorted_sortNewestFirst])
  have "set (sortNewestFirst ?act) = set ?act"
    by (simp add: sortNewestFirst_def)
  then have 4: "\<forall>p\<in>set ?ps. p_v p = None \<and> p_status p = ''active''"
    by (auto simp: dropVersion_def)
  from 1 2 3 4 show "\<exists>ps. listPosts L d JUndefined = Resp 200 (JPosts ps)
        \<and> mset ps = mset (map (\<lambda>p. p\<lparr>p_v := None\<rparr>) ?act)
        \<and> sorted_wrt (\<lambda>a b. p_createdAt b \<le> p_createdAt a) ps
        \<and> (\<forall>p\<in>set ps. p_v p = None \<and> p_status p = ''active'')"
    by blast
next
  assume h: "s \<noteq> [] \<and> castObjectId L s = Some oi"
  let ?org = "filter (\<lambda>p. p_orgId p = oi) (posts d)"
  have 1: "listPosts L d (JStr s) = Resp 200 (JPosts (sortNewestFirst ?org))"
    using h by (simp add: listPosts_def Post_findByOrg_def)
  show "\<exists>ps. listPosts L d (JStr s) = Resp 200 (JPosts ps)
           \<and> mset ps = mset ?org
           \<and> sorted_wrt (\<lambda>a b. p_createdAt b \<le> p_createdAt a) ps"
    using 1 mset_sortNewestFirst [of ?org] sorted_sortNewestFirst [of ?org] by blast
qed

text \<open>
  On the sample store: the public list holds the active post only, with every field as
  stored and no version key; the list of the organization holds its draft (the newer
  one) and then its active post, both as stored.
\<close>

theorem list_posts_modes_witness:
  "posts exDb = [exPost, exDraft]
   \<and> exPost = exPublicPost\<lparr>p_v := Some 0\<rparr>
   \<and> p_status exDraft = ''draft''
   \<and> listPosts refLib exDb JUndefined = Resp 200 (JPosts [exPublicPost])
   \<and> (\<exists>ps. listPosts refLib exDb JUndefined = Resp 200 (JPosts ps)
         \<and> mset ps = mset (map (\<lambda>p. p\<lparr>p_v := None\<rparr>)
                              (filter (\<lambda>p. p_status p = ''active'') (posts exDb)))
         \<and> sorted_wrt (\<lambda>a b. p_createdAt b \<le> p_createdAt a) ps)
   \<and> exOrgId \<noteq> [] \<and> castObjectId refLib exOrgId = Some exOrgId
   \<and> listPosts refLib exDb (JStr exOrgId) = Resp 200 (JPosts [exDraft, exPost])
   \<and> (\<exists>ps. listPosts refLib exDb (JStr exOrgId) = Resp 200 (JPosts ps)
         \<and> mset ps = mset (filter (\<lambda>p. p_orgId p = exOrgId) (posts exDb))
         \<and> sorted_wrt (\<lambda>a b. p_createdAt b \<le> p_createdAt a) ps)"
proof -
  have s0: "posts exDb = [exPost, exDraft]"
    by (simp add: exDefs)
  have s1: "exPost = exPublicPost\<lparr>p_v := Some 0\<rparr>"
    by (simp add: exDefs exDefs3)
  have s2: "p_status exDraft = ''draft''"
    by (simp add: exDefs)
  have a: "listPosts refLib exDb JUndefined = Resp 200 (JPosts [exPublicPost])"
    by (simp add: listPosts_def sortNewestFirst_def dropVersion_def exDefs exDefs3)
  have h: "exOrgId \<noteq> [] \<and> castObjectId refLib exOrgId = Some exOrgId"
    by (simp add: exDefs refDefs)
  have b: "listPosts refLib exDb (JStr exOrgId) = Resp 200 (JPosts [exDraft, exPost])"
    by (simp add: listPosts_def Post_findByOrg_def sortNewestFirst_def exDefs refDefs)
  note t = list_posts_modes [of refLib exDb exOrgId exOrgId]
  have c: "\<exists>ps. listPosts refLib exDb JUndefined = Resp 200 (JPosts ps)
         \<and> mset ps = mset (map (\<lambda>p. p\<lparr>p_v := None\<rparr>)
                              (filter (\<lambda>p. p_status p = ''active'') (posts exDb)))
         \<and> sorted_wrt (\<lambda>a b. p_createdAt b \<le> p_createdAt a) ps"
    using t by blast
  have e: "\<exists>ps. listPosts refLib exDb (JStr exOrgId) = Resp 200 (JPosts ps)
         \<and> mset ps = mset (filter (\<lambda>p. p_orgId p = exOrgId) (posts exDb))
         \<and> sorted_wrt (\<lambda>a b. p_createdAt b \<le> p_createdAt a) ps"
    using t h by blast
  from s0 s1 s2 a c h b e show ?thesis by (intro conjI) blast+
qed

section \<open>Malformed identifiers\<close>

text \<open>
  Claim C10. For an identifier that is not well formed, the delete handler answers 500
  (the cast error of the query is caught as a server error) and leaves the store as it
  was, while the get handler answers 400 before any query.
\<close>

theorem delete_malformed_id_server_error:
  assumes "\<not> isValid L (JStr ident)"
  shows "deletePost L d ident = (d, Resp 500 (JError ''Failed to delete post''))
       \<and> getPost L d ident = Resp 400 (JError ''Invalid post ID'')"
  using assms by (simp add: deletePost_def Post_findByIdAndDelete_def getPost_def)

theorem delete_malformed_id_server_error_witness:
  "\<not> isValid refLib (JStr ''abc'')
   \<and> deletePost refLib exDb ''abc'' = (exDb, Resp 500 (JError ''Failed to delete post''))
   \<and> getPost refLib exDb ''abc'' = Resp 400 (JError ''Invalid post ID'')"
proof -
  have h: "\<not> isValid refLib (JStr ''abc'')"
    by (simp add: refDefs)
  show ?thesis
    by (rule conjI [OF h delete_malformed_id_server_error [OF h]])
qed

section \<open>Accounts and their emails\<close>

lemmas exDefs2 = exRegister_def exLogin_def exLoginPadded_def exCv_def exCvSaved_def
  exCvInfo_def

lemma Student_findOne_SomeD:
  "Student_findOne d v = Some s \<Longrightarrow>
     s \<in> set (students d) \<and> (\<exists>e. v = JStr e \<and> s_email s = trim e)"
  by (cases v) (auto simp: setPath_def studentEmailPath_def plainPath_def dest: find_SomeD)

lemma Organization_findOne_SomeD:
  "Organization_findOne d v = Some g \<Longrightarrow>
     g \<in> set (organizations d) \<and> (\<exists>e. v = JStr e \<and> o_email g = e)"
  by (cases v) (auto simp: setPath_def orgEmailPath_def plainPath_def dest: find_SomeD)

lemma Student_findOne_None:
  "Student_findOne d (JStr e) = None \<Longrightarrow> \<forall>s\<in>set (students d). s_email s \<noteq> trim e"
  by (auto simp: setPath_def studentEmailPath_def plainPath_def find_None_iff)

lemma Student_exists_stored:
  assumes "e \<in> set (map s_email (students d))" and "emailsTrimmed d"
  shows "Student_exists d (JStr e)"
proof -
  from assms(1) obtain s where s: "s \<in> set (students d)" "s_email s = e" by auto
  with assms(2) have "trim e = e"
    by (auto simp: emailsTrimmed_def list_all_iff)
  with s have "\<exists>x\<in>set (students d). s_email x = trim e" by auto
  then show ?thesis
    by (auto simp: Student_exists_def setPath_def studentEmailPath_def plainPath_def find_None_iff)
qed

lemma Organization_exists_stored:
  assumes "e \<in> set (map o_email (organizations d))"
  shows "Organization_exists d (JStr e)"
  using assms
  by (auto simp: Organization_exists_def setPath_def orgEmailPath_def plainPath_def find_None_iff)

text \<open>
  The invariant \<open>emailsTrimmed\<close>: the empty store has it and every handler that
  writes keeps it, so it holds in every store the server can reach.
\<close>

lemma emailsTrimmed_empty: "emailsTrimmed emptyDb"
  by (simp add: emailsTrimmed_def emptyDb_def)

lemma Student_insert_trimmed:
  assumes "Student_insert d s = Inr d'" and "emailsTrimmed d" and "trim (s_email s) = s_email s"
  shows "emailsTrimmed d'"
proof -
  from assms(1) have "d' = d\<lparr>students := students d @ [s]\<rparr>"
    by (simp add: Student_insert_def Let_def split: if_splits)
  with assms(2,3) show ?thesis
    by (simp add: emailsTrimmed_def)
qed

lemma Organization_insert_trimmed:
  assumes "Organization_insert d g = Inr d'" and "emailsTrimmed d"
  shows "emailsTrimmed d'"
proof -
  from assms(1) have "d' = d\<lparr>organizations := organizations d @ [g]\<rparr>"
    by (simp add: Organization_insert_def Let_def split: if_splits)
  with assms(2) show ?thesis
    by (simp add: emailsTrimmed_def)
qed

lemma emailsTrimmed_register:
  assumes "emailsTrimmed d"
  shows "emailsTrimmed (fst (registerUser L E d r))"
proof -
  have e: "trim (setPath studentEmailPath x) = setPath studentEmailPath x" for x
    by (simp add: setPath_def studentEmailPath_def plainPath_def trim_idem)
  show ?thesis
    unfolding registerUser_def Let_def
    by (simp add: assms e Student_insert_trimmed [OF _ assms] Organization_insert_trimmed [OF _ assms]
        split: sum.split)
qed

lemma emailsTrimmed_replaceFirst:
  assumes "list_all Q xs" and "Q y"
  shows "list_all Q (replaceFirst P y xs)"
  using assms by (induction xs) auto

lemma emailsTrimmed_saveCV:
  assumes "emailsTrimmed d"
  shows "emailsTrimmed (fst (saveCV E d r))"
proof (cases "Student_findOne d (v_email r)")
  case None
  then show ?thesis using assms by (simp add: saveCV_def)
next
  case (Some found)
  then have "found \<in> set (students d)" using Student_findOne_SomeD by blast
  then have f: "trim (s_email found) = s_email found"
    using assms by (auto simp: emailsTrimmed_def list_all_iff)
  show ?thesis
    using assms Some f
    by (auto simp: saveCV_def Let_def Student_update_def emailsTrimmed_def
        intro!: emailsTrimmed_replaceFirst split: sum.splits)
qed

lemma students_createPost: "students (fst (createPost sch L E d r)) = students d"
  by (auto simp: createPost_def Let_def Post_save_def split: option.splits sum.splits dberr.splits)

lemma students_updatePost: "students (fst (updatePost sch L E d ident r)) = students d"
  by (auto simp: updatePost_def Let_def Post_findByIdAndUpdate_def
      split: option.splits sum.splits dberr.splits prod.splits)

lemma students_deletePost: "students (fst (deletePost L d ident)) = students d"
  by (auto simp: deletePost_def Post_findByIdAndDelete_def
      split: option.splits sum.splits prod.splits)

section \<open>Registering with an email that is taken\<close>

text \<open>
  In a store whose student emails are trimmed (every reachable store), a registration as
  student or as organization whose email is, character for character, the email of a
  student or of an organization is answered 400 with the message that the account
  exists, and the store is returned as it was. (A role that is neither of the two is
  refused before the lookup.)
\<close>

lemma register_existing_email_conflict:
  assumes role: "r_role r = JStr ''student'' \<or> r_role r = JStr ''organization''"
    and email: "r_email r = JStr e"
    and stored: "e \<in> set (map s_email (students d)) \<or> e \<in> set (map o_email (organizations d))"
    and trimmed: "emailsTrimmed d"
  shows "registerUser L E d r = (d, Resp 400 (JError msgEmailExists))"
proof -
  have "Student_exists d (r_email r) \<or> Organization_exists d (r_email r)"
    using stored Student_exists_stored [OF _ trimmed] Organization_exists_stored
    unfolding email by blast
  then show ?thesis
    using role by (auto simp: registerUser_def Let_def)
qed

text \<open>The sample student's email, in an attempt to register an organization.\<close>

lemma register_existing_email_conflict_example:
  "registerUser refLib exEnv exDb exRegister = (exDb, Resp 400 (JError msgEmailExists))"
proof -
  have role: "r_role exRegister = JStr ''student'' \<or> r_role exRegister = JStr ''organization''"
    by (simp add: exDefs2)
  have email: "r_email exRegister = JStr ''ana@example.org''"
    by (simp add: exDefs2)
  have stored: "''ana@example.org'' \<in> set (map s_email (students exDb))"
    by (simp add: exDefs)
  have trimmed: "emailsTrimmed exDb"
    by (simp add: emailsTrimmed_def exDefs trim_def isWhite_def)
  show ?thesis
    using role email _ trimmed
    by (rule register_existing_email_conflict) (rule disjI1 [OF stored])
qed

text \<open>
  Claim C2 does not hold of the handler. The two lookups compare differently: the
  student lookup trims the email, as the Student schema does when it stores one, and the
  organization lookup compares it as written. A registration as student that writes an
  organization's email with a blank before it passes both lookups; the student is then
  stored under the trimmed email, which is the organization's. On the sample store,
  where the organization has hr@acme.example: the request is answered 201, a student
  document is inserted, and its email is hr@acme.example.
\<close>

theorem register_padded_organization_email_accepted:
  "r_role exRegisterPadded = JStr ''student''
   \<and> r_email exRegisterPadded = JStr '' hr@acme.example''
   \<and> organizations exDb = [exOrganization] \<and> o_email exOrganization = ''hr@acme.example''
   \<and> students exDb = [exStudent]
   \<and> registerUser refLib exEnv exDb exRegisterPadded
       = (exDb\<lparr>students := [exStudent, exRegistered]\<rparr>,
          Resp 201 (JRegistered ''Student registered successfully!'' ''student''))
   \<and> s_email exRegistered = ''hr@acme.example''"
  by (simp add: registerUser_def Let_def Student_exists_def Organization_exists_def
      Student_insert_def Student_validate_def exDefs exDefs3 schemaDefs refLib_def)

text \<open>After that call both collections hold the email.\<close>

theorem register_padded_organization_email_accepted_witness:
  "''hr@acme.example''
      \<in> set (map s_email (students (fst (registerUser refLib exEnv exDb exRegisterPadded))))
   \<and> ''hr@acme.example''
      \<in> set (map o_email (organizations (fst (registerUser refLib exEnv exDb exRegisterPadded))))"
  using register_padded_organization_email_accepted
  by (simp add: exDefs exDefs3)

section \<open>Login\<close>

text \<open>
  Claim C8. The role a login reports is that of the collection in which the email lookup
  matched. A collection holds the email of a login when its lookup matches it: the
  Student schema stores and looks up emails trimmed, the Organization schema as written.
  So a successful login reports role student only when the
  Student collection holds a record whose email is the supplied email with the white
  space at its ends removed, and then the reported email and identifier are that
  record's and the password verifies against that record's hash. It reports role
  organization only when no student record matches in that way and the Organization
  collection holds a record whose email is the supplied email, and then the reported
  email and identifier are that record's and the password verifies against its hash.
  A password that verifies against a record of the other collection plays no part.
\<close>

theorem login_role_from_matching_collection:
  assumes "login L d r = Resp 200 (JLogin i)"
  shows "(li_role i = ''student''
          \<and> (\<exists>s\<in>set (students d). s_email s = trim (strVal (l_email r))
                \<and> li_email i = s_email s \<and> li_id i = s_id s
                \<and> bcryptCompare L (strVal (l_password r)) (s_password s)))
       \<or> (li_role i = ''organization''
          \<and> (\<forall>s\<in>set (students d). s_email s \<noteq> trim (strVal (l_email r)))
          \<and> (\<exists>g\<in>set (organizations d). o_email g = strVal (l_email r)
                \<and> li_email i = o_email g \<and> li_id i = o_id g
                \<and> bcryptCompare L (strVal (l_password r)) (o_password g)))"
proof -
  from assms have t: "truthy (l_email r)" "truthy (l_password r)"
    by (auto simp: login_def split: if_splits)
  then obtain e where e: "l_email r = JStr e" by (cases "l_email r") auto
  show ?thesis
  proof (cases "Student_findOne d (l_email r)")
    case (Some s)
    from Student_findOne_SomeD [OF Some] e have s: "s \<in> set (students d)" "s_email s = trim e"
      by auto
    from assms t Some have "li_role i = ''student'' \<and> li_email i = s_email s \<and> li_id i = s_id s
        \<and> bcryptCompare L (strVal (l_password r)) (s_password s)"
      by (auto simp: login_def Let_def studentAccount_def split: if_splits)
    with s e show ?thesis by auto
  next
    case None
    then have no: "\<forall>s\<in>set (students d). s_email s \<noteq> trim e"
      using Student_findOne_None e by simp
    from assms t None obtain g where g: "Organization_findOne d (l_email r) = Some g"
      by (cases "Organization_findOne d (l_email r)") (auto simp: login_def Let_def)
    from Organization_findOne_SomeD [OF g] e have g': "g \<in> set (organizations d)" "o_email g = e"
      by auto
    from assms t None g have "li_role i = ''organization'' \<and> li_email i = o_email g \<and> li_id i = o_id g
        \<and> bcryptCompare L (strVal (l_password r)) (o_password g)"
      by (auto simp: login_def Let_def orgAccount_def split: if_splits)
    with no g' e show ?thesis by auto
  qed
qed

lemma exLogin_result:
  "login refLib exDb exLogin
     = Resp 200 (JLogin \<lparr>li_role = ''organization'', li_email = ''hr@acme.example'',
                         li_id = exOrgId, li_orgId = Some exOrgId\<rparr>)"
  by (simp add: login_def Let_def studentAccount_def orgAccount_def exDefs exDefs2 schemaDefs
      refLib_def)

theorem login_role_from_matching_collection_witness:
  "login refLib exDb exLogin
     = Resp 200 (JLogin \<lparr>li_role = ''organization'', li_email = ''hr@acme.example'',
                         li_id = exOrgId, li_orgId = Some exOrgId\<rparr>)
   \<and> (\<exists>g\<in>set (organizations exDb). o_email g = ''hr@acme.example'' \<and> o_id g = exOrgId
         \<and> bcryptCompare refLib ''hunter2'' (o_password g))"
proof -
  have "\<exists>g\<in>set (organizations exDb). o_email g = strVal (l_email exLogin)
          \<and> ''hr@acme.example'' = o_email g \<and> exOrgId = o_id g
          \<and> bcryptCompare refLib (strVal (l_password exLogin)) (o_password g)"
    using login_role_from_matching_collection [OF exLogin_result] by simp
  then have "\<exists>g\<in>set (organizations exDb). o_email g = ''hr@acme.example'' \<and> o_id g = exOrgId
         \<and> bcryptCompare refLib ''hunter2'' (o_password g)"
    by (auto simp: exDefs2)
  with exLogin_result show ?thesis by (rule conjI)
qed

text \<open>
  The student lookup in its trimmed form: a login that writes the sample student's email
  with a blank before it matches that student, and the role and email reported are the
  student's.
\<close>

lemma login_student_padded_email:
  "l_email exLoginPadded = JStr '' ana@example.org''
   \<and> '' ana@example.org'' \<notin> set (map s_email (students exDb))
   \<and> login refLib exDb exLoginPadded
       = Resp 200 (JLogin \<lparr>li_role = ''student'', li_email = ''ana@example.org'',
                           li_id = ''63f000000000000000000001'', li_orgId = None\<rparr>)"
  by (simp add: login_def Let_def studentAccount_def orgAccount_def exDefs exDefs2 schemaDefs
      refLib_def)

section \<open>Saving a CV\<close>





end
